theory Spec2Isabelle
  imports Main "HOL-Library.Sublist" "HOL-Library.AList" "HOL-Library.Word"
begin

section \<open>Go strings\<close>

text \<open>
  A Go \<open>string\<close> is a sequence of bytes; it is modelled as \<open>string\<close> (a list of
  \<open>char\<close>, one per byte). The functions of package \<open>strings\<close> that the channel calls
  are written out below.
\<close>

text \<open>\<open>strings.HasPrefix\<close> and \<open>strings.HasSuffix\<close>.\<close>

definition HasPrefix :: "string \<Rightarrow> string \<Rightarrow> bool" where
  "HasPrefix s p = (take (length p) s = p)"

definition HasSuffix :: "string \<Rightarrow> string \<Rightarrow> bool" where
  "HasSuffix s suf = (length suf \<le> length s \<and> drop (length s - length suf) s = suf)"

text \<open>\<open>strings.Index\<close>: the byte offset of the first occurrence, \<open>None\<close> for Go's \<open>-1\<close>.\<close>

fun Index :: "string \<Rightarrow> string \<Rightarrow> nat option" where
  "Index [] sub = (if sub = [] then Some 0 else None)"
| "Index (c # s) sub =
     (if HasPrefix (c # s) sub then Some 0 else map_option Suc (Index s sub))"

definition Contains :: "string \<Rightarrow> string \<Rightarrow> bool" where
  "Contains s sub = (Index s sub \<noteq> None)"

text \<open>\<open>strings.Split\<close> with a one-byte separator, and \<open>strings.Join\<close>.\<close>

fun Split :: "string \<Rightarrow> char \<Rightarrow> string list" where
  "Split [] sep = [[]]"
| "Split (c # s) sep =
     (if c = sep then [] # Split s sep
      else (case Split s sep of [] \<Rightarrow> [[c]] | p # ps \<Rightarrow> (c # p) # ps))"

fun Join :: "string list \<Rightarrow> string \<Rightarrow> string" where
  "Join [] sep = []"
| "Join [p] sep = p"
| "Join (p # q # ps) sep = p @ sep @ Join (q # ps) sep"

text \<open>\<open>strings.TrimRight\<close> with a one-byte cutset, \<open>strings.TrimSuffix\<close>.\<close>

definition TrimRight :: "string \<Rightarrow> char \<Rightarrow> string" where
  "TrimRight s c = rev (dropWhile (\<lambda>x. x = c) (rev s))"

definition TrimSuffix :: "string \<Rightarrow> string \<Rightarrow> string" where
  "TrimSuffix s suf = (if HasSuffix s suf then take (length s - length suf) s else s)"

section \<open>Requests\<close>

text \<open>
  The part of \<open>net/url.URL\<close> the channel reads: the path, the host name without port
  (what \<open>u.Hostname()\<close> returns) and the parsed query (what \<open>u.Query()\<close> returns, first
  value of each key).
\<close>

record url =
  Path :: string
  Hostname :: string
  Query :: "(string \<times> string) list"

text \<open>\<open>url.Values.Get\<close>, \<open>gin.Context.Query\<close>, \<open>gin.Context.GetHeader\<close>: the value, or the
  empty string when the key is absent.\<close>

definition Get :: "(string \<times> string) list \<Rightarrow> string \<Rightarrow> string" where
  "Get kvs k = (case map_of kvs k of None \<Rightarrow> [] | Some v \<Rightarrow> v)"

record request =
  URL :: url
  Header :: "(string \<times> string) list"

type_synonym go_error = string

section \<open>Streaming classification\<close>

text \<open>
  \<open>IsStreamRequest\<close>. The decoding of the body into \<open>streamPayload\<close> by
  \<open>encoding/json\<close> is the parameter \<open>unmarshal_stream\<close>: \<open>Inl\<close> the decoder's error,
  \<open>Inr\<close> the field \<open>Stream\<close> of the decoded value.
\<close>

definition IsStreamRequest ::
  "(string \<Rightarrow> go_error + bool) \<Rightarrow> request \<Rightarrow> string \<Rightarrow> bool" where
  "IsStreamRequest unmarshal_stream c bodyBytes =
     (if HasSuffix (Path (URL c)) '':streamGenerateContent'' then True
      else if Contains (Get (Header c) ''Accept'') ''text/event-stream'' then True
      else if Get (Query (URL c)) ''stream'' = ''true'' then True
      else (case unmarshal_stream bodyBytes of
              Inr stream \<Rightarrow> stream
            | Inl err \<Rightarrow> False))"

section \<open>Service accounts and the path translator\<close>

record gcpServiceAccount =
  ProjectID :: string
  PrivateKeyID :: string
  PrivateKey :: string
  ClientEmail :: string
  TokenURI :: string

text \<open>
  The loop shared by \<open>extractVertexLocation\<close> and \<open>extractVertexProjectID\<close>: the first
  path segment equal to \<open>key\<close> whose next segment exists and is not empty gives that next
  segment; the loop goes on past a \<open>key\<close> followed by an empty segment.
\<close>

fun segment_after :: "string \<Rightarrow> string list \<Rightarrow> string option" where
  "segment_after key [] = None"
| "segment_after key [p] = None"
| "segment_after key (p # q # ps) =
     (if p = key \<and> q \<noteq> [] then Some q else segment_after key (q # ps))"

text \<open>A nil \<open>*url.URL\<close> is \<open>None\<close>.\<close>

definition extractVertexLocation :: "url option \<Rightarrow> string" where
  "extractVertexLocation u =
     (case u of
        None \<Rightarrow> []
      | Some u \<Rightarrow>
          (case segment_after ''locations'' (Split (Path u) CHR ''/'') of
             Some location \<Rightarrow> location
           | None \<Rightarrow>
               (let host = Hostname u in
                if host = [] then []
                else if host = ''aiplatform.googleapis.com'' then ''global''
                else if HasSuffix host ''-aiplatform.googleapis.com''
                        \<and> TrimSuffix host ''-aiplatform.googleapis.com'' \<noteq> []
                     then TrimSuffix host ''-aiplatform.googleapis.com''
                else [])))"

definition extractVertexProjectID :: "url option \<Rightarrow> string" where
  "extractVertexProjectID u =
     (case u of
        None \<Rightarrow> []
      | Some u \<Rightarrow>
          (case segment_after ''projects'' (Split (Path u) CHR ''/'') of
             Some projectID \<Rightarrow> projectID
           | None \<Rightarrow> []))"

text \<open>\<open>vertexModelsReplacement\<close>: Go's \<open>(s, true)\<close> is \<open>Some s\<close>, \<open>("", false)\<close> is \<open>None\<close>.\<close>

definition vertexModelsReplacement :: "string \<Rightarrow> url \<Rightarrow> gcpServiceAccount \<Rightarrow> string option" where
  "vertexModelsReplacement prefixBefore u sa =
     (if Contains prefixBefore ''/publishers/google/models'' then Some []
      else if Contains prefixBefore ''/publishers/google'' then
        (if HasSuffix (TrimRight prefixBefore CHR ''/'') ''/models'' then Some []
         else Some ''/models'')
      else if Contains prefixBefore ''/projects/'' \<and> Contains prefixBefore ''/locations/''
        then Some ''/publishers/google/models''
      else if ProjectID sa = [] then None
      else (let location = extractVertexLocation (Some u) in
            if location = [] then None
            else Some (''/v1/projects/'' @ ProjectID sa @ ''/locations/'' @ location
                        @ ''/publishers/google/models'')))"

text \<open>
  \<open>rewriteGeminiNativePathToVertex\<close> mutates \<open>req.URL.Path\<close>; the model returns the
  request after the call. The request and its URL are never nil where the channel is
  called, so the nil guard of the source has no branch here.
\<close>

definition rewriteGeminiNativePathToVertex :: "request \<Rightarrow> gcpServiceAccount \<Rightarrow> request" where
  "rewriteGeminiNativePathToVertex req sa =
     (let path = Path (URL req);
          (idx, matchedPrefix) =
            (case Index path ''/v1beta/models'' of
               Some i \<Rightarrow> (Some i, ''/v1beta/models'')
             | None \<Rightarrow> (Index path ''/v1/models'', ''/v1/models''))
      in case idx of
           None \<Rightarrow> req
         | Some i \<Rightarrow>
             (let prefixBefore = take i path;
                  suffixAfter = drop (i + length matchedPrefix) path
              in case vertexModelsReplacement prefixBefore (URL req) sa of
                   None \<Rightarrow> req
                 | Some replacement \<Rightarrow>
                     req\<lparr>URL := (URL req)\<lparr>Path := prefixBefore @ replacement @ suffixAfter\<rparr>\<rparr>))"

section \<open>Model redirect\<close>

text \<open>
  The fields of \<open>models.Group\<close> the channel reads. A Go map from string to string is an
  association list read with \<open>map_of\<close>; its order stands for the order in which \<open>range\<close>
  happens to visit the map. The type of a header rule is left open.
\<close>

record 'r group =
  GroupName :: string
  ModelRedirectMap :: "(string \<times> string) list"
  ModelRedirectStrict :: bool
  HeaderRuleList :: "'r list"

text \<open>
  The errors the channel returns, one constructor for each \<open>fmt.Errorf\<close> of the source,
  with the values it formats: a wrapped library error, the channel's name, the model, or
  the status and the parsed upstream message of \<open>"[status %d] %s"\<close>.
\<close>

datatype error =
    EmptyKeyValue
  | ServiceAccountJSON go_error
  | MissingClientEmailOrPrivateKey
  | NoUpstreamURL string
  | MissingProjectID
  | LocationNotInferred
  | MarshalJWTHeader go_error
  | MarshalJWTClaims go_error
  | InvalidPrivateKeyPEM
  | PrivateKeyNotRSA
  | ParseRSAPrivateKey
  | SignJWT go_error
  | CreateTokenRequest go_error
  | ExchangeAccessToken go_error
  | ReadTokenResponse go_error
  | StatusError int string
  | ParseTokenResponse go_error
  | MissingAccessToken
  | NilUpstreamURL
  | MissingVertexURLParts
  | MarshalValidationPayload go_error
  | CreateValidationRequest go_error
  | SendValidationRequest go_error
  | ReadErrorBody int go_error
  | ModelNotConfigured string

text \<open>
  The loop of \<open>applyNativeFormatRedirect\<close> (and of \<open>ExtractModel\<close>) stops at the first
  index \<open>i\<close> with \<open>parts[i] == "models"\<close> and \<open>i+1 < len(parts)\<close>.
\<close>

fun models_index :: "string list \<Rightarrow> nat \<Rightarrow> nat option" where
  "models_index [] i = None"
| "models_index [p] i = None"
| "models_index (p # q # ps) i =
     (if p = ''models'' then Some i else models_index (q # ps) (Suc i))"

text \<open>
  \<open>applyNativeFormatRedirect\<close> returns the request as the call leaves it, and the
  function's result: \<open>Inl\<close> the error (Go's \<open>nil, err\<close>), \<open>Inr\<close> the body bytes.
\<close>

definition applyNativeFormatRedirect ::
  "request \<Rightarrow> string \<Rightarrow> 'r group \<Rightarrow> request \<times> (error + string)" where
  "applyNativeFormatRedirect req bodyBytes grp =
     (let path = Path (URL req);
          parts = Split path CHR ''/''
      in case models_index parts 0 of
           None \<Rightarrow> (req, Inr bodyBytes)
         | Some i \<Rightarrow>
             (let modelPart = parts ! (i + 1);
                  originalModel = hd (Split modelPart CHR '':'')
              in case map_of (ModelRedirectMap grp) originalModel of
                   Some targetModel \<Rightarrow>
                     (let suffix =
                            (case Index modelPart '':'' of
                               Some colonIndex \<Rightarrow> drop colonIndex modelPart
                             | None \<Rightarrow> [])
                      in (req\<lparr>URL := (URL req)
                               \<lparr>Path := Join (parts[i + 1 := targetModel @ suffix]) ''/''\<rparr>\<rparr>,
                          Inr bodyBytes))
                 | None \<Rightarrow>
                     if ModelRedirectStrict grp
                     then (req, Inl (ModelNotConfigured originalModel))
                     else (req, Inr bodyBytes)))"


text \<open>\<open>ExtractModel\<close>; the decoding of the body into \<open>modelPayload\<close> is a parameter.\<close>

definition ExtractModel ::
  "(string \<Rightarrow> go_error + string) \<Rightarrow> request \<Rightarrow> string \<Rightarrow> string" where
  "ExtractModel unmarshal_model c bodyBytes =
     (let parts = Split (Path (URL c)) CHR ''/''
      in case models_index parts 0 of
           Some i \<Rightarrow> hd (Split (parts ! (i + 1)) CHR '':'')
         | None \<Rightarrow>
             (case unmarshal_model bodyBytes of
                Inr m \<Rightarrow> if m \<noteq> [] then m else []
              | Inl err \<Rightarrow> []))"

section \<open>Model lists\<close>

text \<open>
  A value of Go's \<open>any\<close> as \<open>encoding/json\<close> decodes it: \<open>nil\<close>, \<open>bool\<close>, \<open>float64\<close>,
  \<open>string\<close>, \<open>[]any\<close> and \<open>map[string]any\<close>. The representation \<open>'f\<close> of \<open>float64\<close> is left
  open (no number is inspected); a map is an association list read with \<open>map_of\<close>,
  written with \<open>AList.update\<close> and \<open>AList.delete\<close>.
\<close>

datatype 'f json =
    JNull
  | JBool bool
  | JNumber 'f
  | JString string
  | JArray "'f json list"
  | JObject "(string \<times> 'f json) list"

text \<open>
  The three helpers \<open>buildConfiguredGeminiModels\<close>, \<open>mergeGeminiModelLists\<close> and
  \<open>isFirstPage\<close> are called by \<open>transformGeminiNativeFormat\<close>; they are its parameters
  \<open>build\<close>, \<open>merge\<close> and \<open>first_page\<close>.
\<close>

definition transformGeminiNativeFormat ::
  "((string \<times> string) list \<Rightarrow> 'f json list)
   \<Rightarrow> ('f json list \<Rightarrow> 'f json list \<Rightarrow> 'f json list)
   \<Rightarrow> (request \<Rightarrow> bool)
   \<Rightarrow> request \<Rightarrow> (string \<times> 'f json) list \<Rightarrow> 'f json \<Rightarrow> 'r group
   \<Rightarrow> (string \<times> 'f json) list" where
  "transformGeminiNativeFormat build merge first_page req response modelsInterface grp =
     (case modelsInterface of
        JArray upstreamModels \<Rightarrow>
          (let configuredModels = build (ModelRedirectMap grp) in
           if ModelRedirectStrict grp then
             AList.delete ''nextPageToken''
               (AList.update ''models'' (JArray configuredModels) response)
           else if first_page req then
             AList.update ''models'' (JArray (merge upstreamModels configuredModels)) response
           else AList.update ''models'' (JArray upstreamModels) response)
      | _ \<Rightarrow> response)"

text \<open>
  \<open>TransformModelList\<close>. \<open>unmarshal_map\<close> is \<open>json.Unmarshal\<close> into a \<open>map[string]any\<close>
  (a JSON \<open>null\<close> leaves the map nil, which reads as the empty map);
  \<open>base_transform\<close> is \<open>BaseChannel.TransformModelList\<close>. The decoder's error is returned
  as it is, with a nil map: \<open>Inl\<close>.
\<close>

definition TransformModelList ::
  "(string \<Rightarrow> go_error + (string \<times> 'f json) list)
   \<Rightarrow> (request \<Rightarrow> string \<Rightarrow> 'r group \<Rightarrow> go_error + (string \<times> 'f json) list)
   \<Rightarrow> ((string \<times> string) list \<Rightarrow> 'f json list)
   \<Rightarrow> ('f json list \<Rightarrow> 'f json list \<Rightarrow> 'f json list)
   \<Rightarrow> (request \<Rightarrow> bool)
   \<Rightarrow> request \<Rightarrow> string \<Rightarrow> 'r group \<Rightarrow> go_error + (string \<times> 'f json) list" where
  "TransformModelList unmarshal_map base_transform build merge first_page req bodyBytes grp =
     (case unmarshal_map bodyBytes of
        Inl err \<Rightarrow> Inl err
      | Inr response \<Rightarrow>
          (case map_of response ''models'' of
             Some modelsInterface \<Rightarrow>
               Inr (transformGeminiNativeFormat build merge first_page req response
                      modelsInterface grp)
           | None \<Rightarrow>
               (case map_of response ''data'' of
                  Some d \<Rightarrow> base_transform req bodyBytes grp
                | None \<Rightarrow> Inr response)))"

subsection \<open>The helpers of the model list\<close>

text \<open>
  Modelled from the spec: the body of \<open>buildConfiguredGeminiModels\<close> is not among the
  sources. The spec (section 4.7) has strict mode replace the array with exactly the
  configured target models: the list holds one entry for each model that is the target
  of a redirect, however many sources lead to it. How a model name is rendered as a list
  entry is the parameter \<open>entry\<close>.
\<close>

definition buildConfiguredGeminiModels ::
  "(string \<Rightarrow> 'f json) \<Rightarrow> (string \<times> string) list \<Rightarrow> 'f json list" where
  "buildConfiguredGeminiModels entry redirectMap =
     map entry (remdups (map (\<lambda>(sourceModel, targetModel). targetModel) redirectMap))"

text \<open>
  Modelled from the spec: the body of \<open>mergeGeminiModelLists\<close> is not among the sources.
  The spec (section 4.7) has non-strict mode union the upstream array with the configured
  models, de-duplicated by name, upstream entries taking precedence on conflict: the
  upstream entries are kept, and a configured model is added when no upstream entry has
  its name. How the name of an entry is read is the parameter \<open>name_of\<close>; an entry that
  has no name conflicts with none.
\<close>

definition mergeGeminiModelLists ::
  "('f json \<Rightarrow> string option) \<Rightarrow> 'f json list \<Rightarrow> 'f json list \<Rightarrow> 'f json list" where
  "mergeGeminiModelLists name_of upstream configured =
     upstream @
     filter (\<lambda>c. case name_of c of
                   None \<Rightarrow> True
                 | Some n \<Rightarrow> Some n \<notin> set (map name_of upstream))
       configured"

text \<open>
  Modelled from the spec: the body of \<open>isFirstPage\<close> is not among the sources. The spec
  (sections 4.7 and 6) has the first page be the request that carries no inbound page-token
  query parameter, presence or absence of the parameter alone deciding; the parameter
  is \<open>pageToken\<close>, the counterpart of the \<open>nextPageToken\<close> of the envelope.
\<close>

definition isFirstPage :: "request \<Rightarrow> bool" where
  "isFirstPage req = (map_of (Query (URL req)) ''pageToken'' = None)"

section \<open>Credential parser\<close>

text \<open>
  \<open>strings.TrimSpace\<close> removes the leading and trailing white space of Unicode. In
  UTF-8 these code points are the six ASCII bytes and the byte sequences of U+0085,
  U+00A0, U+1680, U+2000 to U+200A, U+2028, U+2029, U+202F, U+205F and U+3000.
\<close>

definition space_runes :: "string list" where
  "space_runes =
     [[CHR 0x09], [CHR 0x0A], [CHR 0x0B], [CHR 0x0C], [CHR 0x0D], [CHR 0x20],
      [CHR 0xC2, CHR 0x85], [CHR 0xC2, CHR 0xA0], [CHR 0xE1, CHR 0x9A, CHR 0x80],
      [CHR 0xE2, CHR 0x80, CHR 0x80], [CHR 0xE2, CHR 0x80, CHR 0x81],
      [CHR 0xE2, CHR 0x80, CHR 0x82], [CHR 0xE2, CHR 0x80, CHR 0x83],
      [CHR 0xE2, CHR 0x80, CHR 0x84], [CHR 0xE2, CHR 0x80, CHR 0x85],
      [CHR 0xE2, CHR 0x80, CHR 0x86], [CHR 0xE2, CHR 0x80, CHR 0x87],
      [CHR 0xE2, CHR 0x80, CHR 0x88], [CHR 0xE2, CHR 0x80, CHR 0x89],
      [CHR 0xE2, CHR 0x80, CHR 0x8A], [CHR 0xE2, CHR 0x80, CHR 0xA8],
      [CHR 0xE2, CHR 0x80, CHR 0xA9], [CHR 0xE2, CHR 0x80, CHR 0xAF],
      [CHR 0xE2, CHR 0x81, CHR 0x9F], [CHR 0xE3, CHR 0x80, CHR 0x80]]"

function strip_leading :: "string list \<Rightarrow> string \<Rightarrow> string" where
  "strip_leading rs s =
     (case find (\<lambda>r. r \<noteq> [] \<and> HasPrefix s r) rs of
        None \<Rightarrow> s
      | Some r \<Rightarrow> strip_leading rs (drop (length r) s))"
  by pat_completeness auto
termination
proof (relation "measure (\<lambda>(rs, s). length s)")
  show "wf (measure (\<lambda>(rs, s). length s))" by simp
next
  fix rs :: "string list" and s r :: string
  assume "find (\<lambda>r. r \<noteq> [] \<and> HasPrefix s r) rs = Some r"
  then have "r \<noteq> []" "HasPrefix s r"
    by (auto simp: find_Some_iff)
  then have "s \<noteq> []" by (auto simp: HasPrefix_def)
  with \<open>r \<noteq> []\<close> show "((rs, drop (length r) s), (rs, s)) \<in> measure (\<lambda>(rs, s). length s)"
    by simp
qed

declare strip_leading.simps [simp del]

definition TrimSpace :: "string \<Rightarrow> string" where
  "TrimSpace s =
     rev (strip_leading (map rev space_runes) (rev (strip_leading space_runes s)))"

text \<open>
  \<open>parseGCPServiceAccount\<close>. \<open>unmarshal_sa\<close> is \<open>json.Unmarshal\<close> into a
  \<open>gcpServiceAccount\<close>: \<open>Inl\<close> its error, \<open>Inr\<close> the decoded record, in which a key the
  JSON object does not have leaves the empty string.
\<close>

definition parseGCPServiceAccount ::
  "(string \<Rightarrow> go_error + gcpServiceAccount) \<Rightarrow> string \<Rightarrow> error + gcpServiceAccount" where
  "parseGCPServiceAccount unmarshal_sa keyValue =
     (let trimmed = TrimSpace keyValue in
      if trimmed = [] then Inl EmptyKeyValue
      else (case unmarshal_sa trimmed of
              Inl err \<Rightarrow> Inl (ServiceAccountJSON err)
            | Inr sa \<Rightarrow>
                if ClientEmail sa = [] \<or> PrivateKey sa = []
                then Inl MissingClientEmailOrPrivateKey
                else Inr sa))"

subsection \<open>Valid JSON\<close>

text \<open>
  What the specification calls valid JSON is the grammar of RFC 8259, read over bytes as
  the scanner of \<open>encoding/json\<close> reads it. \<open>json_parse\<close> reads a text by that grammar
  into a \<open>json\<close> value whose numbers are their literal text. It stands beside the
  decoder of the library, which remains a parameter of \<open>parseGCPServiceAccount\<close>, to
  compare the two.
\<close>

text \<open>White space, digits and hexadecimal digits of the grammar.\<close>

definition json_space :: "char \<Rightarrow> bool" where
  "json_space c = (c \<in> set [CHR 0x20, CHR 0x09, CHR 0x0A, CHR 0x0D])"

definition json_digit :: "char \<Rightarrow> bool" where
  "json_digit c = (c \<in> set ''0123456789'')"

definition json_hex :: "char \<Rightarrow> bool" where
  "json_hex c = (c \<in> set ''0123456789abcdefABCDEF'')"

text \<open>
  The characters of a string after its opening quote, up to the closing quote: any byte
  from \<open>0x20\<close> on, or a backslash followed by one of \<open>" \ / b f n r t\<close> or by \<open>u\<close> and
  four hexadecimal digits. The string is kept as it is written, escapes included.
\<close>

fun json_string :: "string \<Rightarrow> string \<Rightarrow> (string \<times> string) option" where
  "json_string acc [] = None"
| "json_string acc (c # cs) =
     (if c = CHR 0x22 then Some (rev acc, cs)
      else if c = CHR 0x5C then
        (case cs of
           [] \<Rightarrow> None
         | e # es \<Rightarrow>
             if e \<in> set [CHR 0x22, CHR 0x5C, CHR ''/'', CHR ''b'', CHR ''f'', CHR ''n'',
                          CHR ''r'', CHR ''t'']
             then json_string (e # c # acc) es
             else if e = CHR ''u'' then
               (case es of
                  h1 # h2 # h3 # h4 # rest \<Rightarrow>
                    if json_hex h1 \<and> json_hex h2 \<and> json_hex h3 \<and> json_hex h4
                    then json_string (h4 # h3 # h2 # h1 # e # c # acc) rest
                    else None
                | _ \<Rightarrow> None)
             else None)
      else if (of_char c :: nat) < 32 then None
      else json_string (c # acc) cs)"

text \<open>
  A number: an optional minus sign, \<open>0\<close> or digits that do not start with \<open>0\<close>, an
  optional fraction, an optional exponent. It is kept as its literal text.
\<close>

definition json_digits :: "string \<Rightarrow> (string \<times> string) option" where
  "json_digits s =
     (if takeWhile json_digit s = [] then None
      else Some (takeWhile json_digit s, dropWhile json_digit s))"

definition json_int :: "string \<Rightarrow> (string \<times> string) option" where
  "json_int s =
     (case json_digits s of
        None \<Rightarrow> None
      | Some (ds, r) \<Rightarrow> if hd ds = CHR ''0'' \<and> 1 < length ds then None else Some (ds, r))"

definition json_frac :: "string \<Rightarrow> (string \<times> string) option" where
  "json_frac s =
     (case s of
        c # cs \<Rightarrow>
          if c = CHR ''.'' then
            (case json_digits cs of None \<Rightarrow> None | Some (ds, r) \<Rightarrow> Some (c # ds, r))
          else Some ([], s)
      | [] \<Rightarrow> Some ([], s))"

definition json_exp :: "string \<Rightarrow> (string \<times> string) option" where
  "json_exp s =
     (case s of
        c # cs \<Rightarrow>
          if c = CHR ''e'' \<or> c = CHR ''E'' then
            (case cs of
               d # ds \<Rightarrow>
                 if d = CHR ''+'' \<or> d = CHR ''-'' then
                   (case json_digits ds of None \<Rightarrow> None | Some (xs, r) \<Rightarrow> Some (c # d # xs, r))
                 else (case json_digits cs of None \<Rightarrow> None | Some (xs, r) \<Rightarrow> Some (c # xs, r))
             | [] \<Rightarrow> None)
          else Some ([], s)
      | [] \<Rightarrow> Some ([], s))"

definition json_number :: "string \<Rightarrow> (string \<times> string) option" where
  "json_number s =
     (let (sign, s1) = (case s of
                          c # cs \<Rightarrow> if c = CHR ''-'' then ([c], cs) else ([], s)
                        | [] \<Rightarrow> ([], s))
      in case json_int s1 of
           None \<Rightarrow> None
         | Some (i, s2) \<Rightarrow>
             (case json_frac s2 of
                None \<Rightarrow> None
              | Some (f, s3) \<Rightarrow>
                  (case json_exp s3 of
                     None \<Rightarrow> None
                   | Some (e, s4) \<Rightarrow> Some (sign @ i @ f @ e, s4))))"

text \<open>
  A value, the elements of an array after \<open>[\<close> and the members of an object after \<open>{\<close>.
  Every call takes one unit of \<open>n\<close>, which bounds the number of nested calls.
\<close>

fun json_value :: "nat \<Rightarrow> string \<Rightarrow> (string json \<times> string) option"
  and json_elements :: "nat \<Rightarrow> string \<Rightarrow> (string json list \<times> string) option"
  and json_members :: "nat \<Rightarrow> string \<Rightarrow> ((string \<times> string json) list \<times> string) option"
  where
  "json_value 0 s = None"
| "json_value (Suc n) s =
     (case dropWhile json_space s of
        [] \<Rightarrow> None
      | c # cs \<Rightarrow>
          if c = CHR ''{'' then
            (case dropWhile json_space cs of
               [] \<Rightarrow> None
             | d # ds \<Rightarrow>
                 if d = CHR ''}'' then Some (JObject [], ds)
                 else (case json_members n (d # ds) of
                         None \<Rightarrow> None
                       | Some (kvs, r) \<Rightarrow> Some (JObject kvs, r)))
          else if c = CHR ''['' then
            (case dropWhile json_space cs of
               [] \<Rightarrow> None
             | d # ds \<Rightarrow>
                 if d = CHR '']'' then Some (JArray [], ds)
                 else (case json_elements n (d # ds) of
                         None \<Rightarrow> None
                       | Some (vs, r) \<Rightarrow> Some (JArray vs, r)))
          else if c = CHR 0x22 then
            (case json_string [] cs of
               None \<Rightarrow> None
             | Some (str, r) \<Rightarrow> Some (JString str, r))
          else if take 4 (c # cs) = ''true'' then Some (JBool True, drop 4 (c # cs))
          else if take 5 (c # cs) = ''false'' then Some (JBool False, drop 5 (c # cs))
          else if take 4 (c # cs) = ''null'' then Some (JNull, drop 4 (c # cs))
          else (case json_number (c # cs) of
                  None \<Rightarrow> None
                | Some (lit, r) \<Rightarrow> Some (JNumber lit, r)))"
| "json_elements 0 s = None"
| "json_elements (Suc n) s =
     (case json_value n s of
        None \<Rightarrow> None
      | Some (v, r) \<Rightarrow>
          (case dropWhile json_space r of
             [] \<Rightarrow> None
           | c # cs \<Rightarrow>
               if c = CHR '']'' then Some ([v], cs)
               else if c = CHR '','' then
                 (case json_elements n cs of
                    None \<Rightarrow> None
                  | Some (vs, r') \<Rightarrow> Some (v # vs, r'))
               else None))"
| "json_members 0 s = None"
| "json_members (Suc n) s =
     (case dropWhile json_space s of
        [] \<Rightarrow> None
      | c # cs \<Rightarrow>
          if c = CHR 0x22 then
            (case json_string [] cs of
               None \<Rightarrow> None
             | Some (key, r) \<Rightarrow>
                 (case dropWhile json_space r of
                    [] \<Rightarrow> None
                  | d # ds \<Rightarrow>
                      if d = CHR '':'' then
                        (case json_value n ds of
                           None \<Rightarrow> None
                         | Some (v, r') \<Rightarrow>
                             (case dropWhile json_space r' of
                                [] \<Rightarrow> None
                              | e # es \<Rightarrow>
                                  if e = CHR ''}'' then Some ([(key, v)], es)
                                  else if e = CHR '','' then
                                    (case json_members n es of
                                       None \<Rightarrow> None
                                     | Some (kvs, r'') \<Rightarrow> Some ((key, v) # kvs, r''))
                                  else None))
                      else None))
          else None)"

text \<open>
  A text is valid JSON when it is one value between optional white space. A text of
  \<open>k\<close> bytes is read with \<open>2 * k\<close> units.
\<close>

definition json_parse :: "string \<Rightarrow> string json option" where
  "json_parse s =
     (case json_value (2 * length s) s of
        None \<Rightarrow> None
      | Some (v, r) \<Rightarrow> if dropWhile json_space r = [] then Some v else None)"

definition valid_json :: "string \<Rightarrow> bool" where
  "valid_json s = (json_parse s \<noteq> None)"

section \<open>Token minter\<close>

definition vertexDefaultTokenURI :: string where
  "vertexDefaultTokenURI = ''https://oauth2.googleapis.com/token''"

definition vertexOAuthScope :: string where
  "vertexOAuthScope = ''https://www.googleapis.com/auth/cloud-platform''"

type_synonym int64 = "64 word"

record jwtHeader =
  Alg :: string
  Typ :: string
  Kid :: string

record jwtClaims =
  Iss :: string
  Scope :: string
  Aud :: string
  Iat :: int64
  Exp :: int64

record tokenResponse =
  tr_AccessToken :: string
  tr_ExpiresIn :: int64

record http_request =
  Method :: string
  Target :: string
  ReqHeader :: "(string \<times> string) list"
  ReqBody :: string

text \<open>A response: its status code and what \<open>io.ReadAll(resp.Body)\<close> gives.\<close>

record http_response =
  StatusCode :: int
  ReadAll :: "go_error + string"

datatype pkcs8_key = RSAPrivateKey string | OtherPrivateKey

text \<open>
  What the minter and the probe take from outside the channel: the clock, the token
  endpoint and the upstream behind \<open>HTTPClient.Do\<close>, and the library functions of
  \<open>encoding/json\<close>, \<open>encoding/base64\<close>, \<open>encoding/pem\<close>, \<open>crypto/x509\<close>,
  \<open>crypto/sha256\<close>, \<open>crypto/rsa\<close>, \<open>net/url\<close> and \<open>net/http\<close>, and
  \<open>app_errors.ParseUpstreamError\<close>. A parsed RSA key is kept as a string. Instants are
  nanoseconds since the epoch.
\<close>

record world =
  now_check :: int
  now_unix :: int64
  now_minted :: int
  json_Marshal_header :: "jwtHeader \<Rightarrow> go_error + string"
  json_Marshal_claims :: "jwtClaims \<Rightarrow> go_error + string"
  json_Marshal_payload :: "go_error + string"
  json_Unmarshal_token :: "string \<Rightarrow> go_error + tokenResponse"
  json_Unmarshal_sa :: "string \<Rightarrow> go_error + gcpServiceAccount"
  base64_RawURLEncoding :: "string \<Rightarrow> string"
  pem_Decode :: "string \<Rightarrow> string option"
  x509_ParsePKCS8PrivateKey :: "string \<Rightarrow> go_error + pkcs8_key"
  x509_ParsePKCS1PrivateKey :: "string \<Rightarrow> go_error + string"
  sha256_Sum256 :: "string \<Rightarrow> string"
  rsa_SignPKCS1v15 :: "string \<Rightarrow> string \<Rightarrow> go_error + string"
  url_Values_Encode :: "(string \<times> string) list \<Rightarrow> string"
  url_String :: "url \<Rightarrow> string"
  http_NewRequest :: "string \<Rightarrow> string \<Rightarrow> go_error option"
  HTTPClient_Do :: "http_request \<Rightarrow> go_error + http_response"
  ParseUpstreamError :: "string \<Rightarrow> string"

definition parseRSAPrivateKeyFromPEM :: "world \<Rightarrow> string \<Rightarrow> error + string" where
  "parseRSAPrivateKeyFromPEM w pemStr =
     (case pem_Decode w pemStr of
        None \<Rightarrow> Inl InvalidPrivateKeyPEM
      | Some block \<Rightarrow>
          (case x509_ParsePKCS8PrivateKey w block of
             Inr key \<Rightarrow>
               (case key of
                  RSAPrivateKey rsaKey \<Rightarrow> Inr rsaKey
                | OtherPrivateKey \<Rightarrow> Inl PrivateKeyNotRSA)
           | Inl err8 \<Rightarrow>
               (case x509_ParsePKCS1PrivateKey w block of
                  Inr rsaKey \<Rightarrow> Inr rsaKey
                | Inl err1 \<Rightarrow> Inl ParseRSAPrivateKey)))"

definition rs256Sign :: "world \<Rightarrow> string \<Rightarrow> string \<Rightarrow> error + string" where
  "rs256Sign w unsigned' privateKeyPEM =
     (case parseRSAPrivateKeyFromPEM w privateKeyPEM of
        Inl err \<Rightarrow> Inl err
      | Inr priv \<Rightarrow>
          (case rsa_SignPKCS1v15 w priv (sha256_Sum256 w unsigned') of
             Inl err \<Rightarrow> Inl (SignJWT err)
           | Inr sig \<Rightarrow> Inr (base64_RawURLEncoding w sig)))"

text \<open>
  \<open>mintAccessTokenFromServiceAccount\<close> is written in five parts: the assertion (from
  the clock's reading to \<open>assertion := ...\<close>), the token request, the reading of a
  successful response body, the exchange, and the function itself.
\<close>

definition jwtAssertion :: "world \<Rightarrow> gcpServiceAccount \<Rightarrow> string \<Rightarrow> error + string" where
  "jwtAssertion w sa tokenURI =
     (let now = now_unix w;
          exp = now + 3600
      in case json_Marshal_header w \<lparr>Alg = ''RS256'', Typ = ''JWT'', Kid = PrivateKeyID sa\<rparr> of
           Inl err \<Rightarrow> Inl (MarshalJWTHeader err)
         | Inr headerJSON \<Rightarrow>
             (case json_Marshal_claims w
                     \<lparr>Iss = ClientEmail sa, Scope = vertexOAuthScope, Aud = tokenURI,
                      Iat = now, Exp = exp\<rparr> of
                Inl err \<Rightarrow> Inl (MarshalJWTClaims err)
              | Inr claimsJSON \<Rightarrow>
                  (let headerB64 = base64_RawURLEncoding w headerJSON;
                       claimsB64 = base64_RawURLEncoding w claimsJSON;
                       unsigned' = headerB64 @ ''.'' @ claimsB64
                   in case rs256Sign w unsigned' (PrivateKey sa) of
                        Inl err \<Rightarrow> Inl err
                      | Inr sigB64 \<Rightarrow> Inr (unsigned' @ ''.'' @ sigB64))))"

text \<open>\<open>url.Values\<close> is given to \<open>Encode\<close> as the list of the fields set.\<close>

definition tokenRequest :: "world \<Rightarrow> string \<Rightarrow> string \<Rightarrow> http_request" where
  "tokenRequest w tokenURI assertion =
     \<lparr>Method = ''POST'', Target = tokenURI,
      ReqHeader = [(''Content-Type'', ''application/x-www-form-urlencoded'')],
      ReqBody = url_Values_Encode w
                  [(''grant_type'', ''urn:ietf:params:oauth:grant-type:jwt-bearer''),
                   (''assertion'', assertion)]\<rparr>"

text \<open>
  \<open>time.Duration(expiresIn) * time.Second\<close> is a product of two \<open>int64\<close>, which wraps
  around; \<open>time.Now().Add\<close> adds its signed value to the clock's reading.
\<close>

definition tokenFromBody :: "world \<Rightarrow> string \<Rightarrow> error + string \<times> int" where
  "tokenFromBody w bodyBytes =
     (case json_Unmarshal_token w bodyBytes of
        Inl err \<Rightarrow> Inl (ParseTokenResponse err)
      | Inr tr \<Rightarrow>
          if tr_AccessToken tr = [] then Inl MissingAccessToken
          else
            (let expiresIn = (if tr_ExpiresIn tr \<le>s 0 then 3600 else tr_ExpiresIn tr);
                 expiry = now_minted w + sint (expiresIn * 1000000000)
             in Inr (tr_AccessToken tr, expiry)))"

text \<open>
  The exchange: the request goes through \<open>HTTPClient.Do\<close>, the body is read, a status
  outside 200 to 299 is an error that carries the parsed body.
\<close>

definition exchangeToken ::
  "world \<Rightarrow> http_request \<Rightarrow> http_request list \<times> (error + string \<times> int)" where
  "exchangeToken w req =
     (case HTTPClient_Do w req of
        Inl err \<Rightarrow> ([req], Inl (ExchangeAccessToken err))
      | Inr resp \<Rightarrow>
          (case ReadAll resp of
             Inl err \<Rightarrow> ([req], Inl (ReadTokenResponse err))
           | Inr bodyBytes \<Rightarrow>
               if StatusCode resp < 200 \<or> StatusCode resp \<ge> 300
               then ([req], Inl (StatusError (StatusCode resp)
                                  (ParseUpstreamError w bodyBytes)))
               else ([req], tokenFromBody w bodyBytes)))"

text \<open>
  The function returns the requests it has sent through \<open>HTTPClient.Do\<close> (none or one)
  and its result: \<open>Inl\<close> the error, \<open>Inr\<close> the token and its expiry. The deadline put on
  the context is not modelled.
\<close>

definition mintAccessTokenFromServiceAccount ::
  "world \<Rightarrow> gcpServiceAccount \<Rightarrow> http_request list \<times> (error + string \<times> int)" where
  "mintAccessTokenFromServiceAccount w sa =
     (if ClientEmail sa = [] \<or> PrivateKey sa = [] then ([], Inl MissingClientEmailOrPrivateKey)
      else
        (let tokenURI = (if TokenURI sa = [] then vertexDefaultTokenURI else TokenURI sa)
         in case jwtAssertion w sa tokenURI of
              Inl err \<Rightarrow> ([], Inl err)
            | Inr assertion \<Rightarrow>
                (case http_NewRequest w ''POST'' tokenURI of
                   Some err \<Rightarrow> ([], Inl (CreateTokenRequest err))
                 | None \<Rightarrow> exchangeToken w (tokenRequest w tokenURI assertion))))"

section \<open>Token cache\<close>

record vertexAccessToken =
  AccessToken :: string
  Expiry :: int

type_synonym token_cache = "nat \<rightharpoonup> vertexAccessToken"

text \<open>
  \<open>getOrMintAccessToken\<close> returns the cache as the call leaves it, the requests sent, and
  its result. \<open>time.Until(cached.Expiry)\<close> is the expiry less the clock's reading at the
  check (a \<open>time.Duration\<close> that stops at the ends of \<open>int64\<close>, which leaves the
  comparison as it is); two minutes are \<open>120 * 10^9\<close> nanoseconds.
\<close>

definition getOrMintAccessToken ::
  "world \<Rightarrow> token_cache \<Rightarrow> nat \<Rightarrow> gcpServiceAccount
   \<Rightarrow> token_cache \<times> http_request list \<times> (error + string)" where
  "getOrMintAccessToken w tokenCache apiKeyID sa =
     (let cacheKey = apiKeyID in
      case tokenCache cacheKey of
        Some cached \<Rightarrow>
          if AccessToken cached \<noteq> [] \<and> Expiry cached - now_check w > 2 * 60000000000
          then (tokenCache, [], Inr (AccessToken cached))
          else (case mintAccessTokenFromServiceAccount w sa of
                  (sent, Inl err) \<Rightarrow> (tokenCache, sent, Inl err)
                | (sent, Inr (token, expiry)) \<Rightarrow>
                    (tokenCache(cacheKey \<mapsto> \<lparr>AccessToken = token, Expiry = expiry\<rparr>),
                     sent, Inr token))
      | None \<Rightarrow>
          (case mintAccessTokenFromServiceAccount w sa of
             (sent, Inl err) \<Rightarrow> (tokenCache, sent, Inl err)
           | (sent, Inr (token, expiry)) \<Rightarrow>
               (tokenCache(cacheKey \<mapsto> \<lparr>AccessToken = token, Expiry = expiry\<rparr>),
                sent, Inr token)))"

subsection \<open>Caches a channel can hold\<close>

text \<open>
  \<open>newVertexGeminiChannel\<close> starts the channel with an empty cache, and
  \<open>getOrMintAccessToken\<close> is the only function that writes to it: the caches a channel
  can hold are those that calls of it reach from the empty one.
\<close>

inductive reachable_cache :: "token_cache \<Rightarrow> bool" where
  initial: "reachable_cache Map.empty"
| call: "reachable_cache cache
         \<Longrightarrow> reachable_cache (fst (getOrMintAccessToken w cache apiKeyID sa))"

section \<open>The channel\<close>

text \<open>
  The channel's state: its name and test model (fields of \<open>BaseChannel\<close>), the upstream
  URL that \<open>getUpstreamURL\<close> hands out (\<open>None\<close> for nil), and the token cache.
\<close>

record channel =
  ChannelName :: string
  TestModel :: string
  getUpstreamURL :: "url option"
  tokenCache :: token_cache

record apiKey =
  ID :: nat
  KeyValue :: string

text \<open>\<open>ModifyRequest\<close> returns the channel's cache and the request as the call leaves
  them, the requests sent, and the error if any.\<close>

definition ModifyRequest ::
  "world \<Rightarrow> channel \<Rightarrow> request \<Rightarrow> apiKey
   \<Rightarrow> token_cache \<times> request \<times> http_request list \<times> error option" where
  "ModifyRequest w ch req key =
     (case parseGCPServiceAccount (json_Unmarshal_sa w) (KeyValue key) of
        Inl err \<Rightarrow> (tokenCache ch, req, [], Some err)
      | Inr sa \<Rightarrow>
          (let req1 = rewriteGeminiNativePathToVertex req sa
           in case getOrMintAccessToken w (tokenCache ch) (ID key) sa of
                (cache, sent, Inl err) \<Rightarrow> (cache, req1, sent, Some err)
              | (cache, sent, Inr accessToken) \<Rightarrow>
                  (cache,
                   req1\<lparr>Header := AList.update ''Authorization'' (''Bearer '' @ accessToken)
                                     (Header req1)\<rparr>,
                   sent, None)))"

definition buildVertexModelMethodURL ::
  "world \<Rightarrow> url option \<Rightarrow> string \<Rightarrow> string \<Rightarrow> string \<Rightarrow> string \<Rightarrow> error + string" where
  "buildVertexModelMethodURL w upstreamURL projectID location model method =
     (case upstreamURL of
        None \<Rightarrow> Inl NilUpstreamURL
      | Some u \<Rightarrow>
          if projectID = [] \<or> location = [] \<or> model = [] \<or> method = []
          then Inl MissingVertexURLParts
          else
            (let vertexPath = ''/v1/projects/'' @ projectID @ ''/locations/'' @ location
                                @ ''/publishers/google/models/'' @ model @ '':'' @ method;
                 basePath0 = TrimRight (Path u) CHR ''/'';
                 basePath = (case Index basePath0 ''/v1/projects/'' of
                               Some idx \<Rightarrow> take idx basePath0
                             | None \<Rightarrow> basePath0)
             in Inr (url_String w
                       (u\<lparr>Path := TrimRight basePath CHR ''/'' @ vertexPath, Query := []\<rparr>))))"

text \<open>
  The request of the probe, as \<open>ValidateKey\<close> builds it. \<open>apply_rules\<close> is
  \<open>utils.ApplyHeaderRules\<close> with the context \<open>utils.NewHeaderVariableContext\<close> builds from
  the group and the key.
\<close>

definition probeRequest ::
  "('r group \<Rightarrow> apiKey \<Rightarrow> http_request \<Rightarrow> http_request)
   \<Rightarrow> apiKey \<Rightarrow> 'r group \<Rightarrow> string \<Rightarrow> string \<Rightarrow> string \<Rightarrow> http_request" where
  "probeRequest apply_rules key grp reqURL accessToken body =
     (let req = \<lparr>Method = ''POST'', Target = reqURL,
                  ReqHeader = [(''Authorization'', ''Bearer '' @ accessToken),
                               (''Content-Type'', ''application/json'')],
                  ReqBody = body\<rparr>
      in if HeaderRuleList grp \<noteq> [] then apply_rules grp key req else req)"

text \<open>
  The probe of \<open>ValidateKey\<close>, from the building of its URL on: the requests it sends and
  Go's pair of a flag and an error.
\<close>

definition probe ::
  "world \<Rightarrow> ('r group \<Rightarrow> apiKey \<Rightarrow> http_request \<Rightarrow> http_request)
   \<Rightarrow> channel \<Rightarrow> apiKey \<Rightarrow> 'r group \<Rightarrow> string \<Rightarrow> string \<Rightarrow> string
   \<Rightarrow> http_request list \<times> bool \<times> error option" where
  "probe w apply_rules ch key grp projectID location accessToken =
     (case buildVertexModelMethodURL w (getUpstreamURL ch) projectID location (TestModel ch)
             ''generateContent'' of
        Inl err \<Rightarrow> ([], False, Some err)
      | Inr reqURL \<Rightarrow>
          (case json_Marshal_payload w of
             Inl err \<Rightarrow> ([], False, Some (MarshalValidationPayload err))
           | Inr body \<Rightarrow>
               (case http_NewRequest w ''POST'' reqURL of
                  Some err \<Rightarrow> ([], False, Some (CreateValidationRequest err))
                | None \<Rightarrow>
                    (let req = probeRequest apply_rules key grp reqURL accessToken body
                     in case HTTPClient_Do w req of
                          Inl err \<Rightarrow> ([req], False, Some (SendValidationRequest err))
                        | Inr resp \<Rightarrow>
                            if StatusCode resp \<ge> 200 \<and> StatusCode resp < 300
                            then ([req], True, None)
                            else (case ReadAll resp of
                                    Inl err \<Rightarrow>
                                      ([req], False,
                                       Some (ReadErrorBody (StatusCode resp) err))
                                  | Inr errorBody \<Rightarrow>
                                      ([req], False,
                                       Some (StatusError (StatusCode resp)
                                               (ParseUpstreamError w errorBody))))))))"

text \<open>
  \<open>ValidateKey\<close> returns the cache as the call leaves it, the requests sent in their
  order (the token exchange, then the probe), and Go's pair of a flag and an error.
\<close>

definition ValidateKey ::
  "world \<Rightarrow> ('r group \<Rightarrow> apiKey \<Rightarrow> http_request \<Rightarrow> http_request)
   \<Rightarrow> channel \<Rightarrow> apiKey \<Rightarrow> 'r group
   \<Rightarrow> token_cache \<times> http_request list \<times> bool \<times> error option" where
  "ValidateKey w apply_rules ch key grp =
     (case getUpstreamURL ch of
        None \<Rightarrow> (tokenCache ch, [], False, Some (NoUpstreamURL (ChannelName ch)))
      | Some upstreamURL \<Rightarrow>
          (case parseGCPServiceAccount (json_Unmarshal_sa w) (KeyValue key) of
             Inl err \<Rightarrow> (tokenCache ch, [], False, Some err)
           | Inr sa \<Rightarrow>
               (let projectID0 = extractVertexProjectID (Some upstreamURL);
                    projectID = (if projectID0 = [] then ProjectID sa else projectID0)
                in if projectID = [] then (tokenCache ch, [], False, Some MissingProjectID)
                   else
                     (let location = extractVertexLocation (Some upstreamURL)
                      in if location = []
                         then (tokenCache ch, [], False, Some LocationNotInferred)
                         else
                           (case getOrMintAccessToken w (tokenCache ch) (ID key) sa of
                              (cache, sent, Inl err) \<Rightarrow> (cache, sent, False, Some err)
                            | (cache, sent, Inr accessToken) \<Rightarrow>
                                (case probe w apply_rules ch key grp projectID location
                                        accessToken of
                                   (sent2, ok, err) \<Rightarrow> (cache, sent @ sent2, ok, err)))))))"

section \<open>Sample inputs\<close>

text \<open>Concrete requests, accounts and groups at which the theorems below are applied.\<close>

definition native_stream_request :: request where
  "native_stream_request =
     \<lparr>URL = \<lparr>Path = ''/v1beta/models/gemini-pro:streamGenerateContent'',
             Hostname = ''us-central1-aiplatform.googleapis.com'', Query = []\<rparr>,
      Header = []\<rparr>"

definition native_request :: request where
  "native_request =
     \<lparr>URL = \<lparr>Path = ''/v1beta/models/gemini-pro:generateContent'',
             Hostname = ''us-central1-aiplatform.googleapis.com'', Query = []\<rparr>,
      Header = []\<rparr>"

definition list_request :: request where
  "list_request =
     \<lparr>URL = \<lparr>Path = ''/v1beta/models'',
             Hostname = ''us-central1-aiplatform.googleapis.com'', Query = []\<rparr>,
      Header = []\<rparr>"

definition proj1_account :: gcpServiceAccount where
  "proj1_account =
     \<lparr>ProjectID = ''proj1'', PrivateKeyID = ''kid1'', PrivateKey = ''pem'',
      ClientEmail = ''sa@proj1.iam.gserviceaccount.com'', TokenURI = []\<rparr>"

definition strict_group :: "(string \<times> string) list \<Rightarrow> unit group" where
  "strict_group m =
     \<lparr>GroupName = ''vertex'', ModelRedirectMap = m, ModelRedirectStrict = True,
      HeaderRuleList = []\<rparr>"

definition lenient_group :: "(string \<times> string) list \<Rightarrow> unit group" where
  "lenient_group m =
     \<lparr>GroupName = ''vertex'', ModelRedirectMap = m, ModelRedirectStrict = False,
      HeaderRuleList = []\<rparr>"


definition minimal_account :: gcpServiceAccount where
  "minimal_account =
     \<lparr>ProjectID = [], PrivateKeyID = [], PrivateKey = ''pem'',
      ClientEmail = ''sa@proj1.iam.gserviceaccount.com'', TokenURI = []\<rparr>"

definition minimal_key_json :: string where
  \<open>minimal_key_json =
     ''{"client_email":"sa@proj1.iam.gserviceaccount.com","private_key":"pem"}''\<close>

definition token_json :: string where
  \<open>token_json = ''{"access_token":"tok","expires_in":N}''\<close>

text \<open>
  A world for the examples: the clock reads 1000 seconds and then 1001 seconds, the
  library functions are stand-ins that succeed on the sample inputs, and every server
  answers 200 with \<open>token_json\<close>, which decodes to the token \<open>tok\<close> with the lifetime
  \<open>expires_in\<close>.
\<close>

definition sample_world :: "int64 \<Rightarrow> world" where
  "sample_world expires_in =
     \<lparr>now_check = 1000000000000,
      now_unix = 1000,
      now_minted = 1001000000000,
      json_Marshal_header = (\<lambda>h. Inr (''header('' @ Alg h @ '','' @ Typ h @ '','' @ Kid h @ '')'')),
      json_Marshal_claims = (\<lambda>c. Inr (''claims('' @ Iss c @ '','' @ Scope c @ '','' @ Aud c @ '')'')),
      json_Marshal_payload = Inr ''payload'',
      json_Unmarshal_token =
        (\<lambda>b. if b = token_json
             then Inr \<lparr>tr_AccessToken = ''tok'', tr_ExpiresIn = expires_in\<rparr>
             else Inl ''invalid character''),
      json_Unmarshal_sa =
        (\<lambda>b. if b = minimal_key_json then Inr minimal_account
             else Inl ''invalid character''),
      base64_RawURLEncoding = (\<lambda>s. ''b64('' @ s @ '')''),
      pem_Decode = (\<lambda>s. if s = ''pem'' then Some ''der'' else None),
      x509_ParsePKCS8PrivateKey =
        (\<lambda>b. if b = ''der'' then Inr (RSAPrivateKey ''key'') else Inl ''x509: malformed''),
      x509_ParsePKCS1PrivateKey = (\<lambda>b. Inl ''x509: malformed''),
      sha256_Sum256 = (\<lambda>s. ''sha256('' @ s @ '')''),
      rsa_SignPKCS1v15 = (\<lambda>k d. Inr (''sig('' @ k @ '','' @ d @ '')'')),
      url_Values_Encode = (\<lambda>kvs. Join (map (\<lambda>(k, v). k @ ''='' @ v) kvs) ''&''),
      url_String = (\<lambda>u. ''https://'' @ Hostname u @ Path u),
      http_NewRequest = (\<lambda>m u. None),
      HTTPClient_Do = (\<lambda>r. Inr \<lparr>StatusCode = 200, ReadAll = Inr token_json\<rparr>),
      ParseUpstreamError = (\<lambda>b. b)\<rparr>"

text \<open>
  A key that is valid JSON and has both required fields but a number under
  \<open>project_id\<close>, and the minimal key between two no-break spaces (U+00A0, the bytes
  \<open>0xC2 0xA0\<close>). \<open>sample_unmarshal_sa\<close> is the stand-in for \<open>json.Unmarshal\<close> into a
  \<open>gcpServiceAccount\<close> on these keys: a number does not fit the string field
  \<open>ProjectID\<close>, which is an \<open>UnmarshalTypeError\<close>; the minimal key decodes.
\<close>

definition typed_key_json :: string where
  \<open>typed_key_json = ''{"project_id":17,"private_key":"pem","client_email":"e"}''\<close>

definition padded_key_json :: string where
  "padded_key_json = [CHR 0xC2, CHR 0xA0] @ minimal_key_json @ [CHR 0xC2, CHR 0xA0]"

definition sample_unmarshal_sa :: "string \<Rightarrow> go_error + gcpServiceAccount" where
  "sample_unmarshal_sa b =
     (if b = typed_key_json
      then Inl (''json: cannot unmarshal number into Go struct field ''
                @ ''gcpServiceAccount.project_id of type string'')
      else json_Unmarshal_sa (sample_world 3600) b)"

text \<open>An entry that holds a name only, the reading of it, and a second page.\<close>

definition name_entry :: "string \<Rightarrow> unit json" where
  "name_entry n = JObject [(''name'', JString n)]"

definition entry_name :: "unit json \<Rightarrow> string option" where
  "entry_name j =
     (case j of
        JObject kvs \<Rightarrow> (case map_of kvs ''name'' of Some (JString n) \<Rightarrow> Some n | _ \<Rightarrow> None)
      | _ \<Rightarrow> None)"

definition second_page_request :: request where
  "second_page_request =
     \<lparr>URL = \<lparr>Path = ''/v1beta/models'',
             Hostname = ''us-central1-aiplatform.googleapis.com'',
             Query = [(''pageToken'', ''p2'')]\<rparr>,
      Header = []\<rparr>"

definition models_json :: string where
  \<open>models_json = ''{"models":[{"name":"u"},{"name":"a"}],"nextPageToken":"p2"}''\<close>

definition models_envelope :: "(string \<times> unit json) list" where
  "models_envelope =
     [(''models'', JArray [name_entry ''u'', name_entry ''a'']),
      (''nextPageToken'', JString ''p2'')]"

text \<open>A decoder that knows \<open>models_json\<close> and rejects every other body, and a stand-in
  for \<open>BaseChannel.TransformModelList\<close>.\<close>

definition sample_unmarshal_map :: "string \<Rightarrow> go_error + (string \<times> unit json) list" where
  "sample_unmarshal_map b =
     (if b = models_json then Inr models_envelope else Inl ''invalid character'')"

definition base_list ::
  "request \<Rightarrow> string \<Rightarrow> unit group \<Rightarrow> go_error + (string \<times> unit json) list" where
  "base_list req bodyBytes grp = sample_unmarshal_map bodyBytes"

text \<open>A cache that holds one token, a world whose clock has moved on to a second
  before that token's expiry, and one whose token endpoint answers 500.\<close>

definition minted_cache :: token_cache where
  "minted_cache = [7 \<mapsto> \<lparr>AccessToken = ''tok'', Expiry = 4601000000000\<rparr>]"

definition late_world :: world where
  "late_world =
     (sample_world 3600)\<lparr>now_check := 4600000000000, now_unix := 4600,
                          now_minted := 4601000000000\<rparr>"

definition denying_world :: world where
  "denying_world =
     late_world\<lparr>HTTPClient_Do := (\<lambda>r. Inr \<lparr>StatusCode = 500, ReadAll = Inr ''denied''\<rparr>)\<rparr>"

text \<open>A channel whose upstream URL names the project, a stored key, and header rules
  that change nothing.\<close>

definition vertex_channel :: "string \<Rightarrow> channel" where
  "vertex_channel testModel =
     \<lparr>ChannelName = ''vertex'', TestModel = testModel,
      getUpstreamURL = Some \<lparr>Path = ''/v1/projects/proj1'',
                             Hostname = ''us-central1-aiplatform.googleapis.com'',
                             Query = []\<rparr>,
      tokenCache = Map.empty\<rparr>"

definition sample_key :: apiKey where
  "sample_key = \<lparr>ID = 7, KeyValue = minimal_key_json\<rparr>"

definition no_rules :: "unit group \<Rightarrow> apiKey \<Rightarrow> http_request \<Rightarrow> http_request" where
  "no_rules grp key req = req"

text \<open>A decoder of \<open>streamPayload\<close> that knows two bodies and rejects every other.\<close>

definition sample_unmarshal_stream :: "string \<Rightarrow> go_error + bool" where
  \<open>sample_unmarshal_stream b =
     (if b = ''{"model":"x","stream":true}'' then Inr True
      else if b = ''{"stream":false}'' then Inr False
      else Inl ''invalid character'')\<close>

text \<open>A request whose upstream base path already ends in the Vertex models prefix.\<close>

definition prefixed_request :: request where
  "prefixed_request =
     \<lparr>URL = \<lparr>Path = ''/v1/projects/p/locations/l/publishers/google/models/v1beta/models/gemini-pro:generateContent'',
             Hostname = ''aiplatform.googleapis.com'', Query = []\<rparr>,
      Header = []\<rparr>"

section \<open>Properties\<close>

lemma HasSuffix_suffix: "HasSuffix s suf \<longleftrightarrow> suffix suf s"
proof
  assume "HasSuffix s suf"
  then have "s = take (length s - length suf) s @ suf"
    by (metis HasSuffix_def append_take_drop_id)
  then show "suffix suf s" by (metis suffixI)
next
  assume "suffix suf s"
  then obtain p where "s = p @ suf" by (auto simp: suffix_def)
  then show "HasSuffix s suf" by (simp add: HasSuffix_def)
qed

lemma HasPrefix_prefix: "HasPrefix s p \<longleftrightarrow> prefix p s"
proof
  assume "HasPrefix s p"
  then have "s = p @ drop (length p) s"
    by (metis HasPrefix_def append_take_drop_id)
  then show "prefix p s" by (metis prefixI)
next
  assume "prefix p s"
  then obtain r where "s = p @ r" by (auto simp: prefix_def)
  then show "HasPrefix s p" by (simp add: HasPrefix_def)
qed

lemma Index_Some:
  "Index s sub = Some i \<Longrightarrow> s = take i s @ sub @ drop (i + length sub) s"
proof (induction s arbitrary: i)
  case Nil
  then show ?case by (simp split: if_splits)
next
  case (Cons c s)
  show ?case
  proof (cases "HasPrefix (c # s) sub")
    case True
    with Cons.prems have "i = 0" by simp
    moreover from True have "c # s = sub @ drop (length sub) (c # s)"
      by (metis HasPrefix_def append_take_drop_id)
    ultimately show ?thesis by simp
  next
    case False
    with Cons.prems obtain j where j: "Index s sub = Some j" "i = Suc j" by auto
    from Cons.IH [OF j(1)] j(2) show ?thesis by simp
  qed
qed

lemma Index_None: "Index s sub = None \<Longrightarrow> \<not> sublist sub s"
proof (induction s)
  case Nil
  then show ?case by (simp split: if_splits)
next
  case (Cons c s)
  then have "\<not> HasPrefix (c # s) sub" "Index s sub = None"
    by (auto split: if_splits)
  with Cons.IH show ?case
    by (simp add: sublist_Cons_right HasPrefix_prefix)
qed

lemma Contains_sublist: "Contains s sub \<longleftrightarrow> sublist sub s"
proof
  assume "Contains s sub"
  then obtain i where "Index s sub = Some i" by (auto simp: Contains_def)
  from Index_Some [OF this] show "sublist sub s" by (metis sublist_appendI)
next
  assume "sublist sub s"
  then show "Contains s sub" using Index_None by (auto simp: Contains_def)
qed

subsection \<open>The path translator\<close>













text \<open>
  C9. \<open>IsStreamRequest\<close> is the disjunction of its four tests: the path ends with
  \<open>:streamGenerateContent\<close>, the \<open>Accept\<close> header contains \<open>text/event-stream\<close>, the query
  parameter \<open>stream\<close> is \<open>true\<close>, or the body decodes with \<open>stream\<close> true. A body that
  does not decode contributes nothing and raises no error.
\<close>

theorem IsStreamRequest_iff:
  "IsStreamRequest unmarshal_stream c bodyBytes =
     (suffix '':streamGenerateContent'' (Path (URL c))
      \<or> sublist ''text/event-stream'' (Get (Header c) ''Accept'')
      \<or> Get (Query (URL c)) ''stream'' = ''true''
      \<or> unmarshal_stream bodyBytes = Inr True)"
  by (auto simp: IsStreamRequest_def HasSuffix_suffix Contains_sublist split: sum.splits)


subsection \<open>Model redirect\<close>

text \<open>
  The index \<open>parts[i+1]\<close> and the first element of \<open>strings.Split\<close> that the source
  reads are always there; splitting a path and joining its parts gives the path back.
\<close>

lemma Split_not_Nil: "Split s sep \<noteq> []"
  by (induction s) (auto split: list.splits)

lemma models_index_range:
  "models_index ps n = Some i
   \<Longrightarrow> n \<le> i \<and> i - n + 1 < length ps \<and> ps ! (i - n) = ''models''"
proof (induction ps n rule: models_index.induct)
  case (1 i)
  then show ?case by simp
next
  case (2 p i)
  then show ?case by simp
next
  case (3 p q ps n)
  show ?case
  proof (cases "p = ''models''")
    case True
    with 3 show ?thesis by simp
  next
    case False
    with "3.prems" have r: "models_index (q # ps) (Suc n) = Some i" by simp
    from "3.IH" [OF False r] have "Suc n \<le> i" "i - Suc n + 1 < length (q # ps)"
      "(q # ps) ! (i - Suc n) = ''models''" by simp_all
    then show ?thesis by (simp add: Suc_diff_le)
  qed
qed

lemma models_index_bound:
  "models_index ps 0 = Some i \<Longrightarrow> i + 1 < length ps \<and> ps ! i = ''models''"
  using models_index_range [of ps 0 i] by simp

lemma Join_Split: "Join (Split s sep) [sep] = s"
proof (induction s)
  case Nil
  show ?case by simp
next
  case (Cons c s)
  obtain p ps where sp: "Split s sep = p # ps"
    using Split_not_Nil [of s sep] by (cases "Split s sep") auto
  with Cons show ?case by (cases ps) auto
qed





subsection \<open>The credential parser\<close>

lemma strip_leading_Nil: "strip_leading rs [] = []"
proof -
  have "find (\<lambda>r. r \<noteq> [] \<and> HasPrefix [] r) rs = None"
    by (auto simp: find_None_iff HasPrefix_def)
  then show ?thesis by (subst strip_leading.simps) simp
qed

lemma TrimSpace_Nil: "TrimSpace [] = []"
  by (simp add: TrimSpace_def strip_leading_Nil)

lemma mint_target:
  "r \<in> set (fst (mintAccessTokenFromServiceAccount w sa))
   \<Longrightarrow> Target r = (if TokenURI sa = [] then vertexDefaultTokenURI else TokenURI sa)"
proof -
  have e: "fst (exchangeToken w q) = [q]" for q
    unfolding exchangeToken_def by (simp split: sum.splits)
  have t: "Target (tokenRequest w u a) = u" for u a
    unfolding tokenRequest_def by simp
  assume "r \<in> set (fst (mintAccessTokenFromServiceAccount w sa))"
  then obtain a where
    "r = tokenRequest w (if TokenURI sa = [] then vertexDefaultTokenURI else TokenURI sa) a"
    unfolding mintAccessTokenFromServiceAccount_def Let_def
    by (simp add: e split: sum.splits option.splits if_splits)
  then show ?thesis by (simp only: t)
qed



text \<open>
  C8, as amended. The parser fails exactly when the key is empty once its white space is
  trimmed, when the decoder returns an error, or when the decoded record has an empty
  \<open>client_email\<close> or \<open>private_key\<close>; when it succeeds it returns the decoded record as
  it is, whatever \<open>project_id\<close>, \<open>private_key_id\<close> and \<open>token_uri\<close> hold. The empty key
  is among the failures. Every request the minter sends goes to \<open>token_uri\<close>, and to the
  Google OAuth2 token endpoint when \<open>token_uri\<close> is empty.
\<close>

theorem parseGCPServiceAccount_fails_iff:
  "((\<exists>e. parseGCPServiceAccount unmarshal_sa keyValue = Inl e) \<longleftrightarrow>
      (TrimSpace keyValue = []
       \<or> (\<exists>err. unmarshal_sa (TrimSpace keyValue) = Inl err)
       \<or> (\<exists>sa. unmarshal_sa (TrimSpace keyValue) = Inr sa
                 \<and> (ClientEmail sa = [] \<or> PrivateKey sa = []))))
   \<and> (\<forall>sa. parseGCPServiceAccount unmarshal_sa keyValue = Inr sa
          \<longrightarrow> unmarshal_sa (TrimSpace keyValue) = Inr sa)
   \<and> TrimSpace [] = []
   \<and> (\<forall>r \<in> set (fst (mintAccessTokenFromServiceAccount w account)).
          Target r = (if TokenURI account = [] then ''https://oauth2.googleapis.com/token''
                      else TokenURI account))"
proof -
  have a: "(\<exists>e. parseGCPServiceAccount unmarshal_sa keyValue = Inl e) \<longleftrightarrow>
      (TrimSpace keyValue = []
       \<or> (\<exists>err. unmarshal_sa (TrimSpace keyValue) = Inl err)
       \<or> (\<exists>sa. unmarshal_sa (TrimSpace keyValue) = Inr sa
                 \<and> (ClientEmail sa = [] \<or> PrivateKey sa = [])))"
    unfolding parseGCPServiceAccount_def Let_def
    by (cases "unmarshal_sa (TrimSpace keyValue)") auto
  have b: "unmarshal_sa (TrimSpace keyValue) = Inr sa"
    if "parseGCPServiceAccount unmarshal_sa keyValue = Inr sa" for sa
    using that unfolding parseGCPServiceAccount_def Let_def
    by (cases "unmarshal_sa (TrimSpace keyValue)") (auto split: if_splits)
  have c: "Target r = (if TokenURI account = [] then ''https://oauth2.googleapis.com/token''
                      else TokenURI account)"
    if "r \<in> set (fst (mintAccessTokenFromServiceAccount w account))" for r
    using mint_target [OF that] unfolding vertexDefaultTokenURI_def .
  from a b c TrimSpace_Nil show ?thesis by blast
qed

theorem parseGCPServiceAccount_witness:
  "parseGCPServiceAccount (json_Unmarshal_sa (sample_world 3600))
       (CHR 0x20 # minimal_key_json @ [CHR 0x0A]) = Inr minimal_account
   \<and> ProjectID minimal_account = [] \<and> PrivateKeyID minimal_account = []
   \<and> TokenURI minimal_account = []
   \<and> json_Unmarshal_sa (sample_world 3600)
        (TrimSpace (CHR 0x20 # minimal_key_json @ [CHR 0x0A])) = Inr minimal_account
   \<and> map Target (fst (mintAccessTokenFromServiceAccount (sample_world 3600) minimal_account))
        = [''https://oauth2.googleapis.com/token'']"
proof -
  have p: "parseGCPServiceAccount (json_Unmarshal_sa (sample_world 3600))
       (CHR 0x20 # minimal_key_json @ [CHR 0x0A]) = Inr minimal_account"
    by code_simp
  have e: "ProjectID minimal_account = [] \<and> PrivateKeyID minimal_account = []
     \<and> TokenURI minimal_account = []"
    by (simp add: minimal_account_def)
  have m: "map Target (fst (mintAccessTokenFromServiceAccount (sample_world 3600) minimal_account))
        = [''https://oauth2.googleapis.com/token'']"
    by code_simp
  note t = parseGCPServiceAccount_fails_iff
      [of "json_Unmarshal_sa (sample_world 3600)" "CHR 0x20 # minimal_key_json @ [CHR 0x0A]"
          "sample_world 3600" minimal_account]
  from t p have "json_Unmarshal_sa (sample_world 3600)
        (TrimSpace (CHR 0x20 # minimal_key_json @ [CHR 0x0A])) = Inr minimal_account"
    by blast
  with p e m show ?thesis by blast
qed

text \<open>
  C8 as stated fails, in both directions. The key
  \<open>{"project_id":17,"private_key":"pem","client_email":"e"}\<close> is not empty, is valid
  JSON and has a non-empty \<open>client_email\<close> and \<open>private_key\<close>, yet the parser fails: the
  decoder rejects the number under \<open>project_id\<close>. The minimal key between two no-break
  spaces is not valid JSON, yet the parser trims the spaces and succeeds.
\<close>

theorem parseGCPServiceAccount_json_counterexample:
  "typed_key_json \<noteq> []
   \<and> valid_json typed_key_json
   \<and> json_parse typed_key_json =
       Some (JObject [(''project_id'', JNumber ''17''), (''private_key'', JString ''pem''),
                      (''client_email'', JString ''e'')])
   \<and> parseGCPServiceAccount sample_unmarshal_sa typed_key_json =
       Inl (ServiceAccountJSON
              (''json: cannot unmarshal number into Go struct field ''
               @ ''gcpServiceAccount.project_id of type string''))
   \<and> \<not> valid_json padded_key_json
   \<and> parseGCPServiceAccount sample_unmarshal_sa padded_key_json = Inr minimal_account"
proof -
  have a: "typed_key_json \<noteq> []"
    by (simp add: typed_key_json_def)
  have b: "json_parse typed_key_json =
       Some (JObject [(''project_id'', JNumber ''17''), (''private_key'', JString ''pem''),
                      (''client_email'', JString ''e'')])"
    by code_simp
  have c: "valid_json typed_key_json"
    unfolding valid_json_def b by simp
  have d: "parseGCPServiceAccount sample_unmarshal_sa typed_key_json =
       Inl (ServiceAccountJSON
              (''json: cannot unmarshal number into Go struct field ''
               @ ''gcpServiceAccount.project_id of type string''))"
    by code_simp
  have e: "json_parse padded_key_json = None"
    by code_simp
  have f: "\<not> valid_json padded_key_json"
    unfolding valid_json_def e by simp
  have g: "parseGCPServiceAccount sample_unmarshal_sa padded_key_json = Inr minimal_account"
    by code_simp
  from a b c d e f g show ?thesis by blast
qed

subsection \<open>Model lists\<close>

text \<open>
  C7, as the code has it. When the decoder rejects the upstream body,
  \<open>TransformModelList\<close> returns the decoder's error and no envelope, for every
  request and group; the body is what its caller still holds.
\<close>

theorem TransformModelList_undecodable:
  "unmarshal_map bodyBytes = Inl err
   \<Longrightarrow> TransformModelList unmarshal_map base_transform build merge first_page req bodyBytes grp
       = Inl err"
  unfolding TransformModelList_def by (simp only: sum.case)

text \<open>
  C7 as stated fails: on a body that is not JSON the function returns an error to its
  caller, not the body.
\<close>

theorem TransformModelList_undecodable_counterexample:
  "TransformModelList sample_unmarshal_map base_list
      (buildConfiguredGeminiModels name_entry) (mergeGeminiModelLists entry_name) isFirstPage
      list_request ''<html>'' (lenient_group []) = Inl ''invalid character''"
  by code_simp

theorem TransformModelList_undecodable_witness:
  "sample_unmarshal_map ''<html>'' = Inl ''invalid character''
   \<and> TransformModelList sample_unmarshal_map base_list
      (buildConfiguredGeminiModels name_entry) (mergeGeminiModelLists entry_name) isFirstPage
      list_request ''<html>'' (strict_group [(''a'', ''b'')]) = Inl ''invalid character''"
proof -
  have h: "sample_unmarshal_map ''<html>'' = Inl ''invalid character''"
    by code_simp
  from TransformModelList_undecodable
      [of sample_unmarshal_map "''<html>''" "''invalid character''", OF h] h
  show ?thesis by blast
qed

lemma TransformModelList_models:
  assumes "unmarshal_map bodyBytes = Inr response"
    and "map_of response ''models'' = Some (JArray upstream)"
  shows "TransformModelList unmarshal_map base_transform build merge first_page req bodyBytes grp
     = Inr (if ModelRedirectStrict grp then
             AList.delete ''nextPageToken''
               (AList.update ''models'' (JArray (build (ModelRedirectMap grp))) response)
           else if first_page req then
             AList.update ''models''
               (JArray (merge upstream (build (ModelRedirectMap grp)))) response
           else AList.update ''models'' (JArray upstream) response)"
  unfolding TransformModelList_def transformGeminiNativeFormat_def Let_def
  by (simp only: assms sum.case option.case json.case)

text \<open>
  C5. For an envelope whose \<open>models\<close> is an array: in strict mode the array becomes the
  entries of the configured target models, one for each target of the redirect map, and
  \<open>nextPageToken\<close> is removed, whatever the upstream array and token were; in non-strict
  mode, on a request that carries no \<open>pageToken\<close> parameter, the array becomes the
  upstream entries followed by the configured entries whose name no upstream entry has;
  on a request that carries one the envelope is returned as it came, the upstream array
  with it. The result still holds an array under \<open>models\<close>, and its keys are those of
  the upstream envelope, less \<open>nextPageToken\<close> in strict mode.
\<close>

theorem TransformModelList_gemini:
  assumes "unmarshal_map bodyBytes = Inr response"
    and "map_of response ''models'' = Some (JArray upstream)"
  shows "\<exists>r. TransformModelList unmarshal_map base_transform
               (buildConfiguredGeminiModels entry) (mergeGeminiModelLists name_of) isFirstPage
               req bodyBytes grp = Inr r
     \<and> (ModelRedirectStrict grp \<longrightarrow>
          map_of r = (map_of response)
             (''models'' \<mapsto> JArray (map entry (remdups (map snd (ModelRedirectMap grp)))),
              ''nextPageToken'' := None))
     \<and> (\<not> ModelRedirectStrict grp \<and> ''pageToken'' \<notin> fst ` set (Query (URL req)) \<longrightarrow>
          map_of r = (map_of response)
             (''models'' \<mapsto> JArray (upstream @
                 filter (\<lambda>c. \<forall>n. name_of c = Some n \<longrightarrow> (\<forall>u \<in> set upstream. name_of u \<noteq> Some n))
                   (map entry (remdups (map snd (ModelRedirectMap grp)))))))
     \<and> (\<not> ModelRedirectStrict grp \<and> ''pageToken'' \<in> fst ` set (Query (URL req)) \<longrightarrow>
          r = response \<and> map_of r ''models'' = Some (JArray upstream))
     \<and> (\<exists>ms. map_of r ''models'' = Some (JArray ms))
     \<and> dom (map_of r) =
         (if ModelRedirectStrict grp then dom (map_of response) - {''nextPageToken''}
          else dom (map_of response))"
proof -
  define k where "k = ''models''"
  define t where "t = ''nextPageToken''"
  define p where "p = ''pageToken''"
  define cfg where "cfg = map entry (remdups (map snd (ModelRedirectMap grp)))"
  have s: "(\<lambda>(sourceModel, targetModel). targetModel) = (snd :: string \<times> string \<Rightarrow> string)"
    by (rule ext) (simp add: split_beta)
  have f: "filter (\<lambda>c. case name_of c of None \<Rightarrow> True
                 | Some n \<Rightarrow> Some n \<notin> set (map name_of upstream)) cfg
         = filter (\<lambda>c. \<forall>n. name_of c = Some n \<longrightarrow> (\<forall>u \<in> set upstream. name_of u \<noteq> Some n)) cfg"
  proof (rule filter_cong [OF refl])
    fix x
    show "(case name_of x of None \<Rightarrow> True
            | Some n \<Rightarrow> Some n \<notin> set (map name_of upstream)) =
          (\<forall>n. name_of x = Some n \<longrightarrow> (\<forall>u \<in> set upstream. name_of u \<noteq> Some n))"
      by (cases "name_of x") (auto simp: image_iff)
  qed
  have q: "(map_of (Query (URL req)) p = None) \<longleftrightarrow> p \<notin> fst ` set (Query (URL req))"
    by (rule map_of_eq_None_iff)
  have kin: "k \<in> dom (map_of response)" using assms(2) by (auto simp: k_def)
  have triv: "AList.update k (JArray upstream) response = response"
    using assms(2) unfolding k_def by (rule AList.update_triv)
  define r where "r = (if ModelRedirectStrict grp then
             AList.delete t (AList.update k (JArray cfg) response)
           else if p \<notin> fst ` set (Query (URL req)) then
             AList.update k (JArray (upstream @
               filter (\<lambda>c. \<forall>n. name_of c = Some n \<longrightarrow> (\<forall>u \<in> set upstream. name_of u \<noteq> Some n))
                 cfg)) response
           else response)"
  have m: "TransformModelList unmarshal_map base_transform
               (buildConfiguredGeminiModels entry) (mergeGeminiModelLists name_of) isFirstPage
               req bodyBytes grp = Inr r"
    unfolding TransformModelList_models [where unmarshal_map = unmarshal_map
      and bodyBytes = bodyBytes, OF assms]
    unfolding buildConfiguredGeminiModels_def mergeGeminiModelLists_def isFirstPage_def s
      k_def [symmetric] t_def [symmetric] p_def [symmetric] cfg_def [symmetric] f q triv r_def
    by (rule refl)
  have kt: "k \<noteq> t" by (simp add: k_def t_def)
  have p1: "map_of r = (map_of response)(k \<mapsto> JArray cfg, t := None)"
    if "ModelRedirectStrict grp"
    using that by (simp add: r_def AList.update_conv' AList.delete_conv')
  have p2: "map_of r = (map_of response)(k \<mapsto> JArray (upstream @
               filter (\<lambda>c. \<forall>n. name_of c = Some n \<longrightarrow> (\<forall>u \<in> set upstream. name_of u \<noteq> Some n))
                 cfg))"
    if "\<not> ModelRedirectStrict grp \<and> p \<notin> fst ` set (Query (URL req))"
    using that by (simp add: r_def AList.update_conv')
  have p3: "r = response \<and> map_of r k = Some (JArray upstream)"
    if "\<not> ModelRedirectStrict grp \<and> p \<in> fst ` set (Query (URL req))"
    using that assms(2) by (simp add: r_def k_def)
  have p4: "\<exists>ms. map_of r k = Some (JArray ms)"
    using assms(2) kt
    by (simp add: r_def AList.update_conv' AList.delete_conv' k_def [symmetric])
  have p5: "dom (map_of r) =
         (if ModelRedirectStrict grp then dom (map_of response) - {t}
          else dom (map_of response))"
    using kin kt
    by (auto simp: r_def AList.update_conv' AList.delete_conv' split: if_splits)
  show ?thesis
    unfolding k_def [symmetric] t_def [symmetric] p_def [symmetric] cfg_def [symmetric]
    apply (rule exI [of _ r])
    apply (intro conjI impI)
          apply (rule m)
         apply (erule p1)
        apply (erule p2)
       apply (erule p3 [THEN conjunct1])
      apply (erule p3 [THEN conjunct2])
     apply (rule p4)
    apply (rule p5)
    done
qed

theorem TransformModelList_gemini_witness:
  "sample_unmarshal_map models_json = Inr models_envelope
   \<and> map_of models_envelope ''models'' = Some (JArray [name_entry ''u'', name_entry ''a''])
   \<and> TransformModelList sample_unmarshal_map base_list
        (buildConfiguredGeminiModels name_entry) (mergeGeminiModelLists entry_name) isFirstPage
        second_page_request models_json (lenient_group [(''x'', ''a''), (''c'', ''d'')])
       = Inr models_envelope
   \<and> TransformModelList sample_unmarshal_map base_list
        (buildConfiguredGeminiModels name_entry) (mergeGeminiModelLists entry_name) isFirstPage
        list_request models_json (lenient_group [(''x'', ''a''), (''c'', ''d'')])
       = Inr [(''models'', JArray [name_entry ''u'', name_entry ''a'', name_entry ''d'']),
              (''nextPageToken'', JString ''p2'')]
   \<and> TransformModelList sample_unmarshal_map base_list
        (buildConfiguredGeminiModels name_entry) (mergeGeminiModelLists entry_name) isFirstPage
        second_page_request models_json (strict_group [(''a'', ''b'')])
       = Inr [(''models'', JArray [name_entry ''b''])]"
proof -
  have h1: "sample_unmarshal_map models_json = Inr models_envelope"
    by code_simp
  have h2: "map_of models_envelope ''models'' = Some (JArray [name_entry ''u'', name_entry ''a''])"
    by code_simp
  have c: "\<not> ModelRedirectStrict (lenient_group [(''x'', ''a''), (''c'', ''d'')])
      \<and> ''pageToken'' \<in> fst ` set (Query (URL second_page_request))"
    by (simp add: lenient_group_def second_page_request_def)
  from TransformModelList_gemini [where unmarshal_map = sample_unmarshal_map
      and bodyBytes = models_json, OF h1 h2, of base_list name_entry entry_name
      second_page_request "lenient_group [(''x'', ''a''), (''c'', ''d'')]"] c
  have p2: "TransformModelList sample_unmarshal_map base_list
        (buildConfiguredGeminiModels name_entry) (mergeGeminiModelLists entry_name) isFirstPage
        second_page_request models_json (lenient_group [(''x'', ''a''), (''c'', ''d'')])
       = Inr models_envelope"
    by blast
  have p1: "TransformModelList sample_unmarshal_map base_list
        (buildConfiguredGeminiModels name_entry) (mergeGeminiModelLists entry_name) isFirstPage
        list_request models_json (lenient_group [(''x'', ''a''), (''c'', ''d'')])
       = Inr [(''models'', JArray [name_entry ''u'', name_entry ''a'', name_entry ''d'']),
              (''nextPageToken'', JString ''p2'')]"
    by code_simp
  have st: "TransformModelList sample_unmarshal_map base_list
        (buildConfiguredGeminiModels name_entry) (mergeGeminiModelLists entry_name) isFirstPage
        second_page_request models_json (strict_group [(''a'', ''b'')])
       = Inr [(''models'', JArray [name_entry ''b''])]"
    by code_simp
  from h1 h2 p2 p1 st show ?thesis by blast
qed

subsection \<open>The token cache\<close>

lemma tokenFromBody_Inr:
  "tokenFromBody w bodyBytes = Inr (token, expiry) \<longleftrightarrow>
     (\<exists>tr. json_Unmarshal_token w bodyBytes = Inr tr \<and> tr_AccessToken tr \<noteq> []
         \<and> token = tr_AccessToken tr
         \<and> expiry = now_minted w
              + sint ((if tr_ExpiresIn tr \<le>s 0 then 3600 else tr_ExpiresIn tr) * 1000000000))"
  unfolding tokenFromBody_def Let_def
  by (cases "json_Unmarshal_token w bodyBytes") auto

lemma exchangeToken_sent: "fst (exchangeToken w req) = [req]"
  unfolding exchangeToken_def by (simp split: sum.splits)

lemma exchangeToken_Inr:
  "snd (exchangeToken w req) = Inr (token, expiry) \<longleftrightarrow>
     (\<exists>resp bodyBytes. HTTPClient_Do w req = Inr resp
         \<and> 200 \<le> StatusCode resp \<and> StatusCode resp < 300
         \<and> ReadAll resp = Inr bodyBytes
         \<and> tokenFromBody w bodyBytes = Inr (token, expiry))"
  unfolding exchangeToken_def
  by (auto split: sum.splits)

lemma mint_shape:
  "(\<exists>err. mintAccessTokenFromServiceAccount w sa = ([], Inl err))
   \<or> (\<exists>assertion. mintAccessTokenFromServiceAccount w sa =
          exchangeToken w (tokenRequest w
             (if TokenURI sa = [] then vertexDefaultTokenURI else TokenURI sa) assertion))"
proof -
  define u where "u = (if TokenURI sa = [] then vertexDefaultTokenURI else TokenURI sa)"
  show ?thesis
    unfolding mintAccessTokenFromServiceAccount_def Let_def u_def [symmetric]
    by (auto split: sum.splits option.splits)
qed

lemma mint_sent: "length (fst (mintAccessTokenFromServiceAccount w sa)) \<le> 1"
  using mint_shape [of w sa] by (auto simp: exchangeToken_sent)

lemma mint_Inr:
  assumes "snd (mintAccessTokenFromServiceAccount w sa) = Inr (token, expiry)"
  shows "\<exists>req resp bodyBytes.
           fst (mintAccessTokenFromServiceAccount w sa) = [req]
         \<and> HTTPClient_Do w req = Inr resp
         \<and> 200 \<le> StatusCode resp \<and> StatusCode resp < 300
         \<and> ReadAll resp = Inr bodyBytes
         \<and> tokenFromBody w bodyBytes = Inr (token, expiry)"
  using mint_shape [of w sa] assms
  by (auto simp: exchangeToken_sent exchangeToken_Inr)

lemma getOrMint_hit:
  assumes "c k = Some cached" "AccessToken cached \<noteq> []"
    "Expiry cached - now_check w > 120000000000"
  shows "getOrMintAccessToken w c k sa = (c, [], Inr (AccessToken cached))"
  using assms unfolding getOrMintAccessToken_def Let_def by simp

lemma getOrMint_miss:
  assumes "\<not> (\<exists>cached. c k = Some cached \<and> AccessToken cached \<noteq> []
        \<and> Expiry cached - now_check w > 120000000000)"
  shows "getOrMintAccessToken w c k sa =
     (case mintAccessTokenFromServiceAccount w sa of
        (sent, Inl err) \<Rightarrow> (c, sent, Inl err)
      | (sent, Inr (token, expiry)) \<Rightarrow>
          (c(k \<mapsto> \<lparr>AccessToken = token, Expiry = expiry\<rparr>), sent, Inr token))"
  using assms unfolding getOrMintAccessToken_def Let_def
  by (cases "c k") auto

lemma getOrMint_other:
  "k' \<noteq> k \<Longrightarrow> fst (getOrMintAccessToken w c k sa) k' = c k'"
  unfolding getOrMintAccessToken_def Let_def
  by (auto split: option.splits prod.splits sum.splits)

lemma getOrMint_Inl:
  assumes "snd (snd (getOrMintAccessToken w c k sa)) = Inl err"
  shows "fst (getOrMintAccessToken w c k sa) = c"
  using assms unfolding getOrMintAccessToken_def Let_def
  by (auto split: option.splits prod.splits sum.splits if_splits)

lemma getOrMint_changed:
  assumes "fst (getOrMintAccessToken w c k sa) \<noteq> c"
  shows "\<exists>token expiry. snd (mintAccessTokenFromServiceAccount w sa) = Inr (token, expiry)
     \<and> getOrMintAccessToken w c k sa =
         (c(k \<mapsto> \<lparr>AccessToken = token, Expiry = expiry\<rparr>),
          fst (mintAccessTokenFromServiceAccount w sa), Inr token)"
  using assms unfolding getOrMintAccessToken_def Let_def
  by (auto split: option.splits prod.splits sum.splits if_splits)

lemma getOrMint_nonempty:
  assumes "\<forall>i v. c i = Some v \<longrightarrow> AccessToken v \<noteq> []"
    and "fst (getOrMintAccessToken w c k sa) i = Some v"
  shows "AccessToken v \<noteq> []"
proof (cases "fst (getOrMintAccessToken w c k sa) = c")
  case True
  with assms show ?thesis by simp
next
  case False
  from getOrMint_changed [OF False] obtain token expiry where
    m: "snd (mintAccessTokenFromServiceAccount w sa) = Inr (token, expiry)"
    and g: "fst (getOrMintAccessToken w c k sa) = c(k \<mapsto> \<lparr>AccessToken = token, Expiry = expiry\<rparr>)"
    by auto
  from mint_Inr [OF m] have "token \<noteq> []" by (auto simp: tokenFromBody_Inr)
  with assms g show ?thesis by (cases "i = k") auto
qed

lemma reachable_cache_nonempty:
  "reachable_cache c \<Longrightarrow> c i = Some v \<Longrightarrow> AccessToken v \<noteq> []"
proof (induction arbitrary: i v rule: reachable_cache.induct)
  case initial
  then show ?case by simp
next
  case (call cache w apiKeyID sa)
  from call.IH have "\<forall>i v. cache i = Some v \<longrightarrow> AccessToken v \<noteq> []" by blast
  from getOrMint_nonempty [OF this call.prems] show ?case .
qed

text \<open>
  C1, as amended. \<open>getOrMintAccessToken\<close> returns the cached token, sends nothing and
  leaves the cache as it is when the identity has an entry with a non-empty token whose
  expiry is more than two minutes after the clock's reading; otherwise its result is
  that of one call of the minter, which sends at most one request, and a minted token
  replaces the identity's entry. The entries of other identities are never touched. On a
  cache that calls of the function have built, every token is non-empty, so there the
  cached token is served exactly when an entry is present and its expiry is more than
  two minutes away. Hence a token served from the cache is never within two minutes of
  its expiry; a token just minted is returned whatever its lifetime.
\<close>

theorem getOrMintAccessToken_cache:
  "(\<forall>cached. c k = Some cached \<and> AccessToken cached \<noteq> []
        \<and> Expiry cached - now_check w > 120000000000
      \<longrightarrow> getOrMintAccessToken w c k sa = (c, [], Inr (AccessToken cached)))
   \<and> (\<not> (\<exists>cached. c k = Some cached \<and> AccessToken cached \<noteq> []
            \<and> Expiry cached - now_check w > 120000000000)
      \<longrightarrow> getOrMintAccessToken w c k sa =
           (case mintAccessTokenFromServiceAccount w sa of
              (sent, Inl err) \<Rightarrow> (c, sent, Inl err)
            | (sent, Inr (token, expiry)) \<Rightarrow>
                (c(k \<mapsto> \<lparr>AccessToken = token, Expiry = expiry\<rparr>), sent, Inr token))
          \<and> length (fst (mintAccessTokenFromServiceAccount w sa)) \<le> 1)
   \<and> (\<forall>k'. k' \<noteq> k \<longrightarrow> fst (getOrMintAccessToken w c k sa) k' = c k')
   \<and> (reachable_cache c \<longrightarrow>
        ((\<exists>cached. c k = Some cached \<and> AccessToken cached \<noteq> []
            \<and> Expiry cached - now_check w > 120000000000)
         \<longleftrightarrow> (\<exists>cached. c k = Some cached \<and> Expiry cached - now_check w > 120000000000)))"
proof (intro conjI allI impI)
  fix cached
  assume "c k = Some cached \<and> AccessToken cached \<noteq> []
        \<and> Expiry cached - now_check w > 120000000000"
  then show "getOrMintAccessToken w c k sa = (c, [], Inr (AccessToken cached))"
    by (blast intro: getOrMint_hit)
next
  assume "\<not> (\<exists>cached. c k = Some cached \<and> AccessToken cached \<noteq> []
            \<and> Expiry cached - now_check w > 120000000000)"
  then show "getOrMintAccessToken w c k sa =
           (case mintAccessTokenFromServiceAccount w sa of
              (sent, Inl err) \<Rightarrow> (c, sent, Inl err)
            | (sent, Inr (token, expiry)) \<Rightarrow>
                (c(k \<mapsto> \<lparr>AccessToken = token, Expiry = expiry\<rparr>), sent, Inr token))"
    by (rule getOrMint_miss)
next
  show "length (fst (mintAccessTokenFromServiceAccount w sa)) \<le> 1" by (rule mint_sent)
next
  fix k' assume "k' \<noteq> k"
  then show "fst (getOrMintAccessToken w c k sa) k' = c k'" by (rule getOrMint_other)
next
  assume "reachable_cache c"
  then show "(\<exists>cached. c k = Some cached \<and> AccessToken cached \<noteq> []
            \<and> Expiry cached - now_check w > 120000000000)
         \<longleftrightarrow> (\<exists>cached. c k = Some cached \<and> Expiry cached - now_check w > 120000000000)"
    using reachable_cache_nonempty by blast
qed

text \<open>
  C1 as stated fails: when the token endpoint grants a lifetime of 60 seconds, the token
  is returned to the caller, and stored, less than two minutes before its expiry.
\<close>

theorem getOrMintAccessToken_margin_counterexample:
  "snd (snd (getOrMintAccessToken (sample_world 60) Map.empty 7 minimal_account)) = Inr ''tok''
   \<and> fst (getOrMintAccessToken (sample_world 60) Map.empty 7 minimal_account) 7
       = Some \<lparr>AccessToken = ''tok'', Expiry = 1061000000000\<rparr>
   \<and> 1061000000000 - now_minted (sample_world 60) \<le> (120000000000::int)"
  by code_simp

theorem getOrMintAccessToken_cache_witness:
  "minted_cache 7 = Some \<lparr>AccessToken = ''tok'', Expiry = 4601000000000\<rparr>
   \<and> getOrMintAccessToken (sample_world 3600) minted_cache 7 minimal_account
       = (minted_cache, [], Inr ''tok'')
   \<and> snd (snd (getOrMintAccessToken late_world minted_cache 7 minimal_account)) = Inr ''tok''
   \<and> length (fst (snd (getOrMintAccessToken late_world minted_cache 7 minimal_account))) = 1
   \<and> fst (getOrMintAccessToken late_world minted_cache 7 minimal_account) 7
       = Some \<lparr>AccessToken = ''tok'', Expiry = 8201000000000\<rparr>"
proof -
  let ?v = "\<lparr>AccessToken = ''tok'', Expiry = 4601000000000\<rparr>"
  have e: "minted_cache 7 = Some ?v"
    by (simp add: minted_cache_def)
  have f: "AccessToken ?v \<noteq> [] \<and> Expiry ?v - now_check (sample_world 3600) > 120000000000"
    by (simp add: sample_world_def)
  have tok: "AccessToken ?v = ''tok''" by simp
  from getOrMintAccessToken_cache [of minted_cache 7 "sample_world 3600" minimal_account] e f
  have "getOrMintAccessToken (sample_world 3600) minted_cache 7 minimal_account
       = (minted_cache, [], Inr (AccessToken ?v))"
    by blast
  then have hit: "getOrMintAccessToken (sample_world 3600) minted_cache 7 minimal_account
       = (minted_cache, [], Inr ''tok'')"
    unfolding tok .
  have late: "snd (snd (getOrMintAccessToken late_world minted_cache 7 minimal_account)) = Inr ''tok''
   \<and> length (fst (snd (getOrMintAccessToken late_world minted_cache 7 minimal_account))) = 1
   \<and> fst (getOrMintAccessToken late_world minted_cache 7 minimal_account) 7
       = Some \<lparr>AccessToken = ''tok'', Expiry = 8201000000000\<rparr>"
    by code_simp
  from e hit late show ?thesis by blast
qed

text \<open>
  C10. When \<open>getOrMintAccessToken\<close> fails, whatever the cause, the cache is the one it
  was called with. When the cache changes, one request was sent, it was answered with a
  status from 200 to 299 and a body that decodes to a non-empty \<open>access_token\<close>, and
  the identity's entry holds that token. A decoded response with an empty
  \<open>access_token\<close> is an error. Every entry of a cache built by calls of the function
  from the empty cache holds a non-empty token.
\<close>

theorem getOrMintAccessToken_failure:
  "(\<forall>err. snd (snd (getOrMintAccessToken w c k sa)) = Inl err
       \<longrightarrow> fst (getOrMintAccessToken w c k sa) = c)
   \<and> (fst (getOrMintAccessToken w c k sa) \<noteq> c
       \<longrightarrow> (\<exists>req resp bodyBytes tr.
              fst (snd (getOrMintAccessToken w c k sa)) = [req]
            \<and> HTTPClient_Do w req = Inr resp
            \<and> 200 \<le> StatusCode resp \<and> StatusCode resp < 300
            \<and> ReadAll resp = Inr bodyBytes
            \<and> json_Unmarshal_token w bodyBytes = Inr tr
            \<and> tr_AccessToken tr \<noteq> []
            \<and> fst (getOrMintAccessToken w c k sa)
                 = c(k \<mapsto> \<lparr>AccessToken = tr_AccessToken tr,
                           Expiry = now_minted w
                             + sint ((if tr_ExpiresIn tr \<le>s 0 then 3600 else tr_ExpiresIn tr)
                                     * 1000000000)\<rparr>)))
   \<and> (\<forall>bodyBytes tr. json_Unmarshal_token w bodyBytes = Inr tr \<and> tr_AccessToken tr = []
       \<longrightarrow> tokenFromBody w bodyBytes = Inl MissingAccessToken)
   \<and> (reachable_cache c \<longrightarrow> (\<forall>i v. c i = Some v \<longrightarrow> AccessToken v \<noteq> []))"
proof (intro conjI allI impI)
  fix err
  assume "snd (snd (getOrMintAccessToken w c k sa)) = Inl err"
  then show "fst (getOrMintAccessToken w c k sa) = c" by (rule getOrMint_Inl)
next
  assume "fst (getOrMintAccessToken w c k sa) \<noteq> c"
  from getOrMint_changed [OF this] obtain token expiry where
    m: "snd (mintAccessTokenFromServiceAccount w sa) = Inr (token, expiry)"
    and g: "getOrMintAccessToken w c k sa =
         (c(k \<mapsto> \<lparr>AccessToken = token, Expiry = expiry\<rparr>),
          fst (mintAccessTokenFromServiceAccount w sa), Inr token)"
    by blast
  from mint_Inr [OF m] obtain req resp bodyBytes where
    r: "fst (mintAccessTokenFromServiceAccount w sa) = [req]"
       "HTTPClient_Do w req = Inr resp" "200 \<le> StatusCode resp" "StatusCode resp < 300"
       "ReadAll resp = Inr bodyBytes" "tokenFromBody w bodyBytes = Inr (token, expiry)"
    by blast
  from r(6) obtain tr where
    t: "json_Unmarshal_token w bodyBytes = Inr tr" "tr_AccessToken tr \<noteq> []"
       "token = tr_AccessToken tr"
       "expiry = now_minted w
           + sint ((if tr_ExpiresIn tr \<le>s 0 then 3600 else tr_ExpiresIn tr) * 1000000000)"
    unfolding tokenFromBody_Inr by blast
  show "\<exists>req resp bodyBytes tr.
              fst (snd (getOrMintAccessToken w c k sa)) = [req]
            \<and> HTTPClient_Do w req = Inr resp
            \<and> 200 \<le> StatusCode resp \<and> StatusCode resp < 300
            \<and> ReadAll resp = Inr bodyBytes
            \<and> json_Unmarshal_token w bodyBytes = Inr tr
            \<and> tr_AccessToken tr \<noteq> []
            \<and> fst (getOrMintAccessToken w c k sa)
                 = c(k \<mapsto> \<lparr>AccessToken = tr_AccessToken tr,
                           Expiry = now_minted w
                             + sint ((if tr_ExpiresIn tr \<le>s 0 then 3600 else tr_ExpiresIn tr)
                                     * 1000000000)\<rparr>)"
    apply (rule exI [of _ req], rule exI [of _ resp], rule exI [of _ bodyBytes],
        rule exI [of _ tr])
    using r(1-5) t g by simp
next
  fix bodyBytes tr
  assume "json_Unmarshal_token w bodyBytes = Inr tr \<and> tr_AccessToken tr = []"
  then show "tokenFromBody w bodyBytes = Inl MissingAccessToken"
    unfolding tokenFromBody_def by simp
next
  fix i v
  assume "reachable_cache c" "c i = Some v"
  then show "AccessToken v \<noteq> []" by (rule reachable_cache_nonempty)
qed

theorem getOrMintAccessToken_failure_witness:
  "snd (snd (getOrMintAccessToken denying_world minted_cache 7 minimal_account))
     = Inl (StatusError 500 ''denied'')
   \<and> fst (getOrMintAccessToken denying_world minted_cache 7 minimal_account) = minted_cache
   \<and> fst (getOrMintAccessToken (sample_world 3600) Map.empty 7 minimal_account) = minted_cache
   \<and> reachable_cache minted_cache"
proof -
  have d: "snd (snd (getOrMintAccessToken denying_world minted_cache 7 minimal_account))
     = Inl (StatusError 500 ''denied'')"
    by code_simp
  from getOrMintAccessToken_failure [of denying_world minted_cache 7 minimal_account] d
  have kept: "fst (getOrMintAccessToken denying_world minted_cache 7 minimal_account)
     = minted_cache"
    by blast
  have "fst (getOrMintAccessToken (sample_world 3600) Map.empty 7 minimal_account) i
     = minted_cache i" for i
  proof (cases "i = 7")
    case True
    have "fst (getOrMintAccessToken (sample_world 3600) Map.empty 7 minimal_account) 7
       = Some \<lparr>AccessToken = ''tok'', Expiry = 4601000000000\<rparr>"
      by code_simp
    with True show ?thesis by (simp add: minted_cache_def)
  next
    case False
    then show ?thesis by (simp add: getOrMint_other minted_cache_def)
  qed
  then have first: "fst (getOrMintAccessToken (sample_world 3600) Map.empty 7 minimal_account)
     = minted_cache"
    by (rule ext)
  have "reachable_cache
     (fst (getOrMintAccessToken (sample_world 3600) Map.empty 7 minimal_account))"
    by (rule reachable_cache.call [OF reachable_cache.initial])
  then have "reachable_cache minted_cache" unfolding first .
  with d kept first show ?thesis by blast
qed

subsection \<open>The health probe\<close>

lemma probe_shape:
  "(\<exists>err. probe w rules ch key grp pid loc tok = ([], False, Some err)
          \<and> (\<forall>st m. err \<noteq> StatusError st m))
   \<or> (\<exists>reqURL body.
          buildVertexModelMethodURL w (getUpstreamURL ch) pid loc (TestModel ch)
             ''generateContent'' = Inr reqURL
        \<and> json_Marshal_payload w = Inr body
        \<and> http_NewRequest w ''POST'' reqURL = None
        \<and> probe w rules ch key grp pid loc tok =
            (case HTTPClient_Do w (probeRequest rules key grp reqURL tok body) of
               Inl err \<Rightarrow> ([probeRequest rules key grp reqURL tok body], False,
                            Some (SendValidationRequest err))
             | Inr resp \<Rightarrow>
                 if StatusCode resp \<ge> 200 \<and> StatusCode resp < 300
                 then ([probeRequest rules key grp reqURL tok body], True, None)
                 else (case ReadAll resp of
                         Inl err \<Rightarrow>
                           ([probeRequest rules key grp reqURL tok body], False,
                            Some (ReadErrorBody (StatusCode resp) err))
                       | Inr errorBody \<Rightarrow>
                           ([probeRequest rules key grp reqURL tok body], False,
                            Some (StatusError (StatusCode resp)
                                    (ParseUpstreamError w errorBody))))))"
proof -
  define post where "post = ''POST''"
  define gc where "gc = ''generateContent''"
  have b: "buildVertexModelMethodURL w u pid loc m gc = Inl e \<Longrightarrow> e \<noteq> StatusError st msg"
    for u m e st msg
    unfolding buildVertexModelMethodURL_def Let_def
    by (auto split: option.splits if_splits)
  show ?thesis
    unfolding probe_def Let_def post_def [symmetric] gc_def [symmetric]
    by (auto split: sum.splits option.splits dest: b)
qed


lemma jwtAssertion_error:
  "jwtAssertion w sa u = Inl err \<Longrightarrow> err \<noteq> StatusError st m"
  unfolding jwtAssertion_def rs256Sign_def parseRSAPrivateKeyFromPEM_def Let_def
  by (auto split: sum.splits option.splits pkcs8_key.splits)

lemma exchangeToken_eq: "exchangeToken w req = (sent, r) \<Longrightarrow> sent = [req]"
  using exchangeToken_sent [of w req] by simp

lemma mint_StatusError:
  assumes "mintAccessTokenFromServiceAccount w sa = (sent, Inl (StatusError st m))"
  shows "sent \<noteq> []"
proof -
  define u where "u = (if TokenURI sa = [] then vertexDefaultTokenURI else TokenURI sa)"
  define post where "post = ''POST''"
  from assms show ?thesis
    unfolding mintAccessTokenFromServiceAccount_def Let_def u_def [symmetric]
      post_def [symmetric]
    by (auto split: sum.splits option.splits if_splits
          dest: jwtAssertion_error exchangeToken_eq)
qed

lemma getOrMint_StatusError:
  assumes "getOrMintAccessToken w c k sa = (c', sent, Inl (StatusError st m))"
  shows "sent \<noteq> []"
  using assms unfolding getOrMintAccessToken_def Let_def
  by (auto split: option.splits prod.splits sum.splits if_splits dest: mint_StatusError)


lemma probe_ok:
  assumes "probe w rules ch key grp pid loc tok = (sent2, ok, err)"
  shows "(ok \<longleftrightarrow> err = None)
    \<and> (ok \<longleftrightarrow> (\<exists>reqURL body resp.
          buildVertexModelMethodURL w (getUpstreamURL ch) pid loc (TestModel ch)
             ''generateContent'' = Inr reqURL
        \<and> json_Marshal_payload w = Inr body
        \<and> http_NewRequest w ''POST'' reqURL = None
        \<and> HTTPClient_Do w (probeRequest rules key grp reqURL tok body) = Inr resp
        \<and> 200 \<le> StatusCode resp \<and> StatusCode resp < 300
        \<and> sent2 = [probeRequest rules key grp reqURL tok body]))
    \<and> (\<forall>st m. err = Some (StatusError st m) \<longrightarrow> sent2 \<noteq> [])"
proof -
  define post where "post = ''POST''"
  define gc where "gc = ''generateContent''"
  let ?P = "\<lambda>ok sent2. \<exists>reqURL body resp.
          buildVertexModelMethodURL w (getUpstreamURL ch) pid loc (TestModel ch) gc
            = Inr reqURL
        \<and> json_Marshal_payload w = Inr body
        \<and> http_NewRequest w post reqURL = None
        \<and> HTTPClient_Do w (probeRequest rules key grp reqURL tok body) = Inr resp
        \<and> 200 \<le> StatusCode resp \<and> StatusCode resp < 300
        \<and> sent2 = [probeRequest rules key grp reqURL tok body]"
  consider (local) e where "probe w rules ch key grp pid loc tok = ([], False, Some e)"
      "\<forall>st m. e \<noteq> StatusError st m"
    | (sent) reqURL body where
      "buildVertexModelMethodURL w (getUpstreamURL ch) pid loc (TestModel ch) gc = Inr reqURL"
      "json_Marshal_payload w = Inr body"
      "http_NewRequest w post reqURL = None"
      "probe w rules ch key grp pid loc tok =
            (case HTTPClient_Do w (probeRequest rules key grp reqURL tok body) of
               Inl err \<Rightarrow> ([probeRequest rules key grp reqURL tok body], False,
                            Some (SendValidationRequest err))
             | Inr resp \<Rightarrow>
                 if StatusCode resp \<ge> 200 \<and> StatusCode resp < 300
                 then ([probeRequest rules key grp reqURL tok body], True, None)
                 else (case ReadAll resp of
                         Inl err \<Rightarrow>
                           ([probeRequest rules key grp reqURL tok body], False,
                            Some (ReadErrorBody (StatusCode resp) err))
                       | Inr errorBody \<Rightarrow>
                           ([probeRequest rules key grp reqURL tok body], False,
                            Some (StatusError (StatusCode resp)
                                    (ParseUpstreamError w errorBody)))))"
    using probe_shape [of w rules ch key grp pid loc tok, folded post_def gc_def] by blast
  then have "(ok \<longleftrightarrow> err = None) \<and> (ok \<longleftrightarrow> ?P ok sent2)
      \<and> (\<forall>st m. err = Some (StatusError st m) \<longrightarrow> sent2 \<noteq> [])"
  proof cases
    case local
    with assms have "sent2 = []" "\<not> ok" "err = Some e" by simp_all
    with local(2) show ?thesis by simp
  next
    case sent
    let ?rq = "probeRequest rules key grp reqURL tok body"
    show ?thesis
    proof (cases "HTTPClient_Do w ?rq")
      case (Inl x)
      with sent(4) assms have "sent2 = [?rq]" "\<not> ok" "err = Some (SendValidationRequest x)"
        by simp_all
      with Inl sent(1,2) show ?thesis by auto
    next
      case (Inr resp)
      show ?thesis
      proof (cases "StatusCode resp \<ge> 200 \<and> StatusCode resp < 300")
        case True
        with Inr sent(4) assms have "sent2 = [?rq]" "ok" "err = None" by simp_all
        with Inr True sent(1,2,3) show ?thesis by auto
      next
        case False
        with Inr sent(4) assms have "sent2 = [?rq]" "\<not> ok" "err \<noteq> None"
          by (auto split: sum.splits)
        with Inr False sent(1,2) show ?thesis by auto
      qed
    qed
  qed
  then show ?thesis unfolding post_def gc_def .
qed


lemma buildVertexModelMethodURL_no_model:
  "buildVertexModelMethodURL w (Some u) pid loc [] method = Inl MissingVertexURLParts"
  unfolding buildVertexModelMethodURL_def by simp

lemma probe_no_model:
  "getUpstreamURL ch = Some u \<Longrightarrow> TestModel ch = []
   \<Longrightarrow> probe w rules ch key grp pid loc tok = ([], False, Some MissingVertexURLParts)"
  unfolding probe_def by (simp only: buildVertexModelMethodURL_no_model sum.case)

lemma parseGCPServiceAccount_error:
  "parseGCPServiceAccount f kv = Inl e \<Longrightarrow> e \<noteq> StatusError st m"
  unfolding parseGCPServiceAccount_def Let_def
  by (auto split: sum.splits if_splits)

lemma ValidateKey_verdict:
  assumes "ValidateKey w rules ch key grp = (cache, sent, ok, err)"
  shows "(ok \<longleftrightarrow> err = None)
   \<and> (ok \<longleftrightarrow> (\<exists>u sa cache1 sent1 tok reqURL body resp.
          getUpstreamURL ch = Some u
        \<and> parseGCPServiceAccount (json_Unmarshal_sa w) (KeyValue key) = Inr sa
        \<and> getOrMintAccessToken w (tokenCache ch) (ID key) sa = (cache1, sent1, Inr tok)
        \<and> buildVertexModelMethodURL w (Some u)
             (if extractVertexProjectID (Some u) = [] then ProjectID sa
              else extractVertexProjectID (Some u))
             (extractVertexLocation (Some u)) (TestModel ch) ''generateContent'' = Inr reqURL
        \<and> json_Marshal_payload w = Inr body
        \<and> http_NewRequest w ''POST'' reqURL = None
        \<and> HTTPClient_Do w (probeRequest rules key grp reqURL tok body) = Inr resp
        \<and> 200 \<le> StatusCode resp \<and> StatusCode resp < 300
        \<and> sent = sent1 @ [probeRequest rules key grp reqURL tok body]))
   \<and> (getUpstreamURL ch = None \<longrightarrow>
        sent = [] \<and> cache = tokenCache ch \<and> err = Some (NoUpstreamURL (ChannelName ch)))
   \<and> (\<forall>e. getUpstreamURL ch \<noteq> None
          \<and> parseGCPServiceAccount (json_Unmarshal_sa w) (KeyValue key) = Inl e \<longrightarrow>
        sent = [] \<and> cache = tokenCache ch \<and> err = Some e)
   \<and> (\<forall>u sa. getUpstreamURL ch = Some u
          \<and> parseGCPServiceAccount (json_Unmarshal_sa w) (KeyValue key) = Inr sa
          \<and> extractVertexProjectID (Some u) = [] \<and> ProjectID sa = [] \<longrightarrow>
        sent = [] \<and> cache = tokenCache ch \<and> err = Some MissingProjectID)
   \<and> (\<forall>u sa. getUpstreamURL ch = Some u
          \<and> parseGCPServiceAccount (json_Unmarshal_sa w) (KeyValue key) = Inr sa
          \<and> \<not> (extractVertexProjectID (Some u) = [] \<and> ProjectID sa = [])
          \<and> extractVertexLocation (Some u) = [] \<longrightarrow>
        sent = [] \<and> cache = tokenCache ch \<and> err = Some LocationNotInferred)
   \<and> (\<forall>st m. err = Some (StatusError st m) \<longrightarrow> sent \<noteq> [])
   \<and> (\<forall>u sa cache1 sent1 tok. getUpstreamURL ch = Some u
          \<and> parseGCPServiceAccount (json_Unmarshal_sa w) (KeyValue key) = Inr sa
          \<and> \<not> (extractVertexProjectID (Some u) = [] \<and> ProjectID sa = [])
          \<and> extractVertexLocation (Some u) \<noteq> []
          \<and> getOrMintAccessToken w (tokenCache ch) (ID key) sa = (cache1, sent1, Inr tok)
          \<and> TestModel ch = [] \<longrightarrow>
        cache = cache1 \<and> sent = sent1 \<and> \<not> ok \<and> err = Some MissingVertexURLParts)"
proof -
  let ?S = "\<lambda>post gc. (ok \<longleftrightarrow> err = None)
   \<and> (ok \<longleftrightarrow> (\<exists>u sa cache1 sent1 tok reqURL body resp.
          getUpstreamURL ch = Some u
        \<and> parseGCPServiceAccount (json_Unmarshal_sa w) (KeyValue key) = Inr sa
        \<and> getOrMintAccessToken w (tokenCache ch) (ID key) sa = (cache1, sent1, Inr tok)
        \<and> buildVertexModelMethodURL w (Some u)
             (if extractVertexProjectID (Some u) = [] then ProjectID sa
              else extractVertexProjectID (Some u))
             (extractVertexLocation (Some u)) (TestModel ch) gc = Inr reqURL
        \<and> json_Marshal_payload w = Inr body
        \<and> http_NewRequest w post reqURL = None
        \<and> HTTPClient_Do w (probeRequest rules key grp reqURL tok body) = Inr resp
        \<and> 200 \<le> StatusCode resp \<and> StatusCode resp < 300
        \<and> sent = sent1 @ [probeRequest rules key grp reqURL tok body]))
   \<and> (getUpstreamURL ch = None \<longrightarrow>
        sent = [] \<and> cache = tokenCache ch \<and> err = Some (NoUpstreamURL (ChannelName ch)))
   \<and> (\<forall>e. getUpstreamURL ch \<noteq> None
          \<and> parseGCPServiceAccount (json_Unmarshal_sa w) (KeyValue key) = Inl e \<longrightarrow>
        sent = [] \<and> cache = tokenCache ch \<and> err = Some e)
   \<and> (\<forall>u sa. getUpstreamURL ch = Some u
          \<and> parseGCPServiceAccount (json_Unmarshal_sa w) (KeyValue key) = Inr sa
          \<and> extractVertexProjectID (Some u) = [] \<and> ProjectID sa = [] \<longrightarrow>
        sent = [] \<and> cache = tokenCache ch \<and> err = Some MissingProjectID)
   \<and> (\<forall>u sa. getUpstreamURL ch = Some u
          \<and> parseGCPServiceAccount (json_Unmarshal_sa w) (KeyValue key) = Inr sa
          \<and> \<not> (extractVertexProjectID (Some u) = [] \<and> ProjectID sa = [])
          \<and> extractVertexLocation (Some u) = [] \<longrightarrow>
        sent = [] \<and> cache = tokenCache ch \<and> err = Some LocationNotInferred)
   \<and> (\<forall>st m. err = Some (StatusError st m) \<longrightarrow> sent \<noteq> [])
   \<and> (\<forall>u sa cache1 sent1 tok. getUpstreamURL ch = Some u
          \<and> parseGCPServiceAccount (json_Unmarshal_sa w) (KeyValue key) = Inr sa
          \<and> \<not> (extractVertexProjectID (Some u) = [] \<and> ProjectID sa = [])
          \<and> extractVertexLocation (Some u) \<noteq> []
          \<and> getOrMintAccessToken w (tokenCache ch) (ID key) sa = (cache1, sent1, Inr tok)
          \<and> TestModel ch = [] \<longrightarrow>
        cache = cache1 \<and> sent = sent1 \<and> \<not> ok \<and> err = Some MissingVertexURLParts)"
  define post where "post = ''POST''"
  define gc where "gc = ''generateContent''"
  let ?parse = "parseGCPServiceAccount (json_Unmarshal_sa w) (KeyValue key)"
  have "?S post gc"
  proof (cases "getUpstreamURL ch")
    case None
    with assms have "cache = tokenCache ch" "sent = []" "\<not> ok"
      "err = Some (NoUpstreamURL (ChannelName ch))"
      unfolding ValidateKey_def by simp_all
    with None show ?thesis by simp
  next
    case (Some u)
    note u = Some
    show ?thesis
    proof (cases ?parse)
      case (Inl e)
      with u assms have "cache = tokenCache ch" "sent = []" "\<not> ok" "err = Some e"
        unfolding ValidateKey_def by simp_all
      with u Inl show ?thesis by (auto dest: parseGCPServiceAccount_error)
    next
      case (Inr sa)
      note sa = Inr
      let ?pid = "if extractVertexProjectID (Some u) = [] then ProjectID sa
              else extractVertexProjectID (Some u)"
      let ?loc = "extractVertexLocation (Some u)"
      show ?thesis
      proof (cases "?pid = []")
        case True
        with u sa assms have "cache = tokenCache ch" "sent = []" "\<not> ok"
          "err = Some MissingProjectID"
          unfolding ValidateKey_def Let_def by (simp_all split: if_splits)
        with u sa True show ?thesis by (auto split: if_splits)
      next
        case False
        note pid = False
        show ?thesis
        proof (cases "?loc = []")
          case True
          with u sa pid assms have "cache = tokenCache ch" "sent = []" "\<not> ok"
            "err = Some LocationNotInferred"
            unfolding ValidateKey_def Let_def by (simp_all split: if_splits)
          with u sa pid True show ?thesis by (auto split: if_splits)
        next
          case False
          note loc = False
          obtain cache1 sent1 r where
            g: "getOrMintAccessToken w (tokenCache ch) (ID key) sa = (cache1, sent1, r)"
            by (metis prod_cases3)
          show ?thesis
          proof (cases r)
            case (Inl e)
            with u sa pid loc g assms have v: "cache = cache1" "sent = sent1" "\<not> ok"
              "err = Some e"
              unfolding ValidateKey_def Let_def by (simp_all split: if_splits)
            from g Inl have "\<forall>st m. e = StatusError st m \<longrightarrow> sent1 \<noteq> []"
              by (auto dest: getOrMint_StatusError)
            with u sa pid loc g Inl v show ?thesis by (auto split: if_splits)
          next
            case (Inr tok)
            obtain sent2 ok2 err2 where
              p: "probe w rules ch key grp ?pid ?loc tok = (sent2, ok2, err2)"
              by (metis prod_cases3)
            with u sa pid loc g Inr assms have v: "cache = cache1" "sent = sent1 @ sent2"
              "ok = ok2" "err = err2"
              unfolding ValidateKey_def Let_def by (simp_all split: if_splits)
            note po = probe_ok [OF p, unfolded u, folded post_def gc_def]
            have nm: "TestModel ch = [] \<Longrightarrow> sent2 = [] \<and> \<not> ok2
                \<and> err2 = Some MissingVertexURLParts"
              using probe_no_model [OF u, of w rules key grp ?pid ?loc tok] p by simp
            from u sa pid loc g Inr v po nm show ?thesis
              by (auto split: if_splits)
          qed
        qed
      qed
    qed
  qed
  then show ?thesis unfolding post_def gc_def .
qed

lemma probe_sent:
  assumes "buildVertexModelMethodURL w (getUpstreamURL ch) pid loc (TestModel ch)
             ''generateContent'' = Inr reqURL"
    and "json_Marshal_payload w = Inr body"
    and "http_NewRequest w ''POST'' reqURL = None"
  shows "probe w rules ch key grp pid loc tok =
     (case HTTPClient_Do w (probeRequest rules key grp reqURL tok body) of
        Inl e \<Rightarrow> ([probeRequest rules key grp reqURL tok body], False,
                   Some (SendValidationRequest e))
      | Inr resp \<Rightarrow>
          if StatusCode resp \<ge> 200 \<and> StatusCode resp < 300
          then ([probeRequest rules key grp reqURL tok body], True, None)
          else (case ReadAll resp of
                  Inl e \<Rightarrow> ([probeRequest rules key grp reqURL tok body], False,
                             Some (ReadErrorBody (StatusCode resp) e))
                | Inr errorBody \<Rightarrow>
                    ([probeRequest rules key grp reqURL tok body], False,
                     Some (StatusError (StatusCode resp)
                             (ParseUpstreamError w errorBody)))))"
  unfolding probe_def Let_def
  by (simp only: assms sum.case option.case)

lemma ValidateKey_sent:
  assumes "getUpstreamURL ch = Some u"
    and "parseGCPServiceAccount (json_Unmarshal_sa w) (KeyValue key) = Inr sa"
    and "\<not> (extractVertexProjectID (Some u) = [] \<and> ProjectID sa = [])"
    and "extractVertexLocation (Some u) \<noteq> []"
    and "getOrMintAccessToken w (tokenCache ch) (ID key) sa = (cache1, sent1, Inr tok)"
    and "probe w rules ch key grp
           (if extractVertexProjectID (Some u) = [] then ProjectID sa
            else extractVertexProjectID (Some u))
           (extractVertexLocation (Some u)) tok = (sent2, ok2, err2)"
  shows "ValidateKey w rules ch key grp = (cache1, sent1 @ sent2, ok2, err2)"
  using assms unfolding ValidateKey_def Let_def by (simp split: if_splits)


lemma buildVertexModelMethodURL_Inr:
  "buildVertexModelMethodURL w (Some u) pid loc model method = Inr x
   \<Longrightarrow> pid \<noteq> [] \<and> loc \<noteq> []"
  unfolding buildVertexModelMethodURL_def by (auto split: if_splits)

lemma ValidateKey_probe_sent:
  assumes v: "ValidateKey w rules ch key grp = (cache, sent, ok, err)"
    and u: "getUpstreamURL ch = Some u"
    and sa: "parseGCPServiceAccount (json_Unmarshal_sa w) (KeyValue key) = Inr sa"
    and g: "getOrMintAccessToken w (tokenCache ch) (ID key) sa = (cache1, sent1, Inr tok)"
    and b: "buildVertexModelMethodURL w (Some u)
             (if extractVertexProjectID (Some u) = [] then ProjectID sa
              else extractVertexProjectID (Some u))
             (extractVertexLocation (Some u)) (TestModel ch) ''generateContent'' = Inr reqURL"
    and p: "json_Marshal_payload w = Inr body"
    and n: "http_NewRequest w ''POST'' reqURL = None"
  shows "cache = cache1 \<and> sent = sent1 @ [probeRequest rules key grp reqURL tok body]
     \<and> (\<forall>e. HTTPClient_Do w (probeRequest rules key grp reqURL tok body) = Inl e
            \<longrightarrow> err = Some (SendValidationRequest e))
     \<and> (\<forall>resp errorBody.
            HTTPClient_Do w (probeRequest rules key grp reqURL tok body) = Inr resp
          \<and> \<not> (200 \<le> StatusCode resp \<and> StatusCode resp < 300)
          \<and> ReadAll resp = Inr errorBody
            \<longrightarrow> err = Some (StatusError (StatusCode resp) (ParseUpstreamError w errorBody)))
     \<and> (\<forall>resp e.
            HTTPClient_Do w (probeRequest rules key grp reqURL tok body) = Inr resp
          \<and> \<not> (200 \<le> StatusCode resp \<and> StatusCode resp < 300)
          \<and> ReadAll resp = Inl e
            \<longrightarrow> err = Some (ReadErrorBody (StatusCode resp) e))"
proof -
  let ?pid = "if extractVertexProjectID (Some u) = [] then ProjectID sa
              else extractVertexProjectID (Some u)"
  let ?loc = "extractVertexLocation (Some u)"
  let ?rq = "probeRequest rules key grp reqURL tok body"
  from buildVertexModelMethodURL_Inr [OF b] have ne: "?pid \<noteq> []" "?loc \<noteq> []" by simp_all
  then have ne1: "\<not> (extractVertexProjectID (Some u) = [] \<and> ProjectID sa = [])"
    by (auto split: if_splits)
  from b have b': "buildVertexModelMethodURL w (getUpstreamURL ch) ?pid ?loc (TestModel ch)
      ''generateContent'' = Inr reqURL"
    unfolding u .
  note ps = probe_sent [OF b' p n, of rules key grp tok]
  obtain sent2 ok2 err2 where
    pr: "probe w rules ch key grp ?pid ?loc tok = (sent2, ok2, err2)"
    by (metis prod_cases3)
  from ValidateKey_sent [OF u sa ne1 ne(2) g pr] v
  have eq: "cache = cache1" "sent = sent1 @ sent2" "ok = ok2" "err = err2" by simp_all
  have s2: "sent2 = [?rq]"
    using ps pr by (auto split: sum.splits if_splits)
  have e1: "err2 = Some (SendValidationRequest e)" if "HTTPClient_Do w ?rq = Inl e" for e
    using ps pr that by simp
  have e2: "err2 = Some (StatusError (StatusCode resp) (ParseUpstreamError w errorBody))"
    if "HTTPClient_Do w ?rq = Inr resp \<and> \<not> (200 \<le> StatusCode resp \<and> StatusCode resp < 300)
          \<and> ReadAll resp = Inr errorBody" for resp errorBody
    using ps pr that by auto
  have e3: "err2 = Some (ReadErrorBody (StatusCode resp) e)"
    if "HTTPClient_Do w ?rq = Inr resp \<and> \<not> (200 \<le> StatusCode resp \<and> StatusCode resp < 300)
          \<and> ReadAll resp = Inl e" for resp e
    using ps pr that by auto
  show ?thesis
    unfolding eq s2
    apply (intro conjI allI impI)
        apply (rule refl)
       apply (rule refl)
      apply (erule e1)
     apply (erule e2)
    apply (erule e3)
    done
qed

text \<open>
  C6, as amended. \<open>ValidateKey\<close> reports a valid key exactly when it reports no error,
  and exactly when the upstream URL, the credential, the project and the location were
  found, a token was obtained, the probe request was built and sent after the
  token's requests, and it was answered with a status from 200 to 299. A missing upstream
  URL, a credential that does not parse, a project or a location that cannot be inferred
  are reported with no request sent and the cache untouched, as errors of their own.
  An error that carries an upstream status is reported only after a request was sent; a
  probe that could not be sent, was answered with another status, or whose error body
  could not be read, is reported with the transport error, with the status and the parsed
  body, or with the status and the read error. An
  empty test model is reported only once the token has been obtained, after whatever
  request the token exchange has sent, and before any probe request.
\<close>

theorem ValidateKey_outcomes:
  assumes "ValidateKey w rules ch key grp = (cache, sent, ok, err)"
  shows "(ok \<longleftrightarrow> err = None)
   \<and> (ok \<longleftrightarrow> (\<exists>u sa cache1 sent1 tok reqURL body resp.
          getUpstreamURL ch = Some u
        \<and> parseGCPServiceAccount (json_Unmarshal_sa w) (KeyValue key) = Inr sa
        \<and> getOrMintAccessToken w (tokenCache ch) (ID key) sa = (cache1, sent1, Inr tok)
        \<and> buildVertexModelMethodURL w (Some u)
             (if extractVertexProjectID (Some u) = [] then ProjectID sa
              else extractVertexProjectID (Some u))
             (extractVertexLocation (Some u)) (TestModel ch) ''generateContent'' = Inr reqURL
        \<and> json_Marshal_payload w = Inr body
        \<and> http_NewRequest w ''POST'' reqURL = None
        \<and> HTTPClient_Do w (probeRequest rules key grp reqURL tok body) = Inr resp
        \<and> 200 \<le> StatusCode resp \<and> StatusCode resp < 300
        \<and> sent = sent1 @ [probeRequest rules key grp reqURL tok body]))
   \<and> (getUpstreamURL ch = None \<longrightarrow>
        sent = [] \<and> cache = tokenCache ch \<and> err = Some (NoUpstreamURL (ChannelName ch)))
   \<and> (\<forall>e. getUpstreamURL ch \<noteq> None
          \<and> parseGCPServiceAccount (json_Unmarshal_sa w) (KeyValue key) = Inl e \<longrightarrow>
        sent = [] \<and> cache = tokenCache ch \<and> err = Some e)
   \<and> (\<forall>u sa. getUpstreamURL ch = Some u
          \<and> parseGCPServiceAccount (json_Unmarshal_sa w) (KeyValue key) = Inr sa
          \<and> extractVertexProjectID (Some u) = [] \<and> ProjectID sa = [] \<longrightarrow>
        sent = [] \<and> cache = tokenCache ch \<and> err = Some MissingProjectID)
   \<and> (\<forall>u sa. getUpstreamURL ch = Some u
          \<and> parseGCPServiceAccount (json_Unmarshal_sa w) (KeyValue key) = Inr sa
          \<and> \<not> (extractVertexProjectID (Some u) = [] \<and> ProjectID sa = [])
          \<and> extractVertexLocation (Some u) = [] \<longrightarrow>
        sent = [] \<and> cache = tokenCache ch \<and> err = Some LocationNotInferred)
   \<and> (\<forall>st m. err = Some (StatusError st m) \<longrightarrow> sent \<noteq> [])
   \<and> (\<forall>u sa cache1 sent1 tok. getUpstreamURL ch = Some u
          \<and> parseGCPServiceAccount (json_Unmarshal_sa w) (KeyValue key) = Inr sa
          \<and> \<not> (extractVertexProjectID (Some u) = [] \<and> ProjectID sa = [])
          \<and> extractVertexLocation (Some u) \<noteq> []
          \<and> getOrMintAccessToken w (tokenCache ch) (ID key) sa = (cache1, sent1, Inr tok)
          \<and> TestModel ch = [] \<longrightarrow>
        cache = cache1 \<and> sent = sent1 \<and> \<not> ok \<and> err = Some MissingVertexURLParts)
   \<and> (\<forall>u sa cache1 sent1 tok reqURL body.
          getUpstreamURL ch = Some u
          \<and> parseGCPServiceAccount (json_Unmarshal_sa w) (KeyValue key) = Inr sa
          \<and> getOrMintAccessToken w (tokenCache ch) (ID key) sa = (cache1, sent1, Inr tok)
          \<and> buildVertexModelMethodURL w (Some u)
               (if extractVertexProjectID (Some u) = [] then ProjectID sa
                else extractVertexProjectID (Some u))
               (extractVertexLocation (Some u)) (TestModel ch) ''generateContent'' = Inr reqURL
          \<and> json_Marshal_payload w = Inr body
          \<and> http_NewRequest w ''POST'' reqURL = None
        \<longrightarrow> cache = cache1 \<and> sent = sent1 @ [probeRequest rules key grp reqURL tok body]
     \<and> (\<forall>e. HTTPClient_Do w (probeRequest rules key grp reqURL tok body) = Inl e
            \<longrightarrow> err = Some (SendValidationRequest e))
     \<and> (\<forall>resp errorBody.
            HTTPClient_Do w (probeRequest rules key grp reqURL tok body) = Inr resp
          \<and> \<not> (200 \<le> StatusCode resp \<and> StatusCode resp < 300)
          \<and> ReadAll resp = Inr errorBody
            \<longrightarrow> err = Some (StatusError (StatusCode resp) (ParseUpstreamError w errorBody)))
     \<and> (\<forall>resp e.
            HTTPClient_Do w (probeRequest rules key grp reqURL tok body) = Inr resp
          \<and> \<not> (200 \<le> StatusCode resp \<and> StatusCode resp < 300)
          \<and> ReadAll resp = Inl e
            \<longrightarrow> err = Some (ReadErrorBody (StatusCode resp) e)))"
proof -
  note a = ValidateKey_verdict [OF assms]
  have b: "(\<forall>u sa cache1 sent1 tok reqURL body.
          getUpstreamURL ch = Some u
          \<and> parseGCPServiceAccount (json_Unmarshal_sa w) (KeyValue key) = Inr sa
          \<and> getOrMintAccessToken w (tokenCache ch) (ID key) sa = (cache1, sent1, Inr tok)
          \<and> buildVertexModelMethodURL w (Some u)
               (if extractVertexProjectID (Some u) = [] then ProjectID sa
                else extractVertexProjectID (Some u))
               (extractVertexLocation (Some u)) (TestModel ch) ''generateContent'' = Inr reqURL
          \<and> json_Marshal_payload w = Inr body
          \<and> http_NewRequest w ''POST'' reqURL = None
        \<longrightarrow> cache = cache1 \<and> sent = sent1 @ [probeRequest rules key grp reqURL tok body]
     \<and> (\<forall>e. HTTPClient_Do w (probeRequest rules key grp reqURL tok body) = Inl e
            \<longrightarrow> err = Some (SendValidationRequest e))
     \<and> (\<forall>resp errorBody.
            HTTPClient_Do w (probeRequest rules key grp reqURL tok body) = Inr resp
          \<and> \<not> (200 \<le> StatusCode resp \<and> StatusCode resp < 300)
          \<and> ReadAll resp = Inr errorBody
            \<longrightarrow> err = Some (StatusError (StatusCode resp) (ParseUpstreamError w errorBody)))
     \<and> (\<forall>resp e.
            HTTPClient_Do w (probeRequest rules key grp reqURL tok body) = Inr resp
          \<and> \<not> (200 \<le> StatusCode resp \<and> StatusCode resp < 300)
          \<and> ReadAll resp = Inl e
            \<longrightarrow> err = Some (ReadErrorBody (StatusCode resp) e)))"
  proof (intro allI impI, elim conjE)
    fix u sa cache1 sent1 tok reqURL body
    assume h: "getUpstreamURL ch = Some u"
      "parseGCPServiceAccount (json_Unmarshal_sa w) (KeyValue key) = Inr sa"
      "getOrMintAccessToken w (tokenCache ch) (ID key) sa = (cache1, sent1, Inr tok)"
      "buildVertexModelMethodURL w (Some u)
               (if extractVertexProjectID (Some u) = [] then ProjectID sa
                else extractVertexProjectID (Some u))
               (extractVertexLocation (Some u)) (TestModel ch) ''generateContent'' = Inr reqURL"
      "json_Marshal_payload w = Inr body"
      "http_NewRequest w ''POST'' reqURL = None"
    show "cache = cache1 \<and> sent = sent1 @ [probeRequest rules key grp reqURL tok body]
     \<and> (\<forall>e. HTTPClient_Do w (probeRequest rules key grp reqURL tok body) = Inl e
            \<longrightarrow> err = Some (SendValidationRequest e))
     \<and> (\<forall>resp errorBody.
            HTTPClient_Do w (probeRequest rules key grp reqURL tok body) = Inr resp
          \<and> \<not> (200 \<le> StatusCode resp \<and> StatusCode resp < 300)
          \<and> ReadAll resp = Inr errorBody
            \<longrightarrow> err = Some (StatusError (StatusCode resp) (ParseUpstreamError w errorBody)))
     \<and> (\<forall>resp e.
            HTTPClient_Do w (probeRequest rules key grp reqURL tok body) = Inr resp
          \<and> \<not> (200 \<le> StatusCode resp \<and> StatusCode resp < 300)
          \<and> ReadAll resp = Inl e
            \<longrightarrow> err = Some (ReadErrorBody (StatusCode resp) e))"
      by (rule ValidateKey_probe_sent [OF assms h])
  qed
  note a1 = a [THEN conjunct1] and r1 = a [THEN conjunct2]
  note a2 = r1 [THEN conjunct1] and r2 = r1 [THEN conjunct2]
  note a3 = r2 [THEN conjunct1] and r3 = r2 [THEN conjunct2]
  note a4 = r3 [THEN conjunct1] and r4 = r3 [THEN conjunct2]
  note a5 = r4 [THEN conjunct1] and r5 = r4 [THEN conjunct2]
  note a6 = r5 [THEN conjunct1] and r6 = r5 [THEN conjunct2]
  note a7 = r6 [THEN conjunct1] and a8 = r6 [THEN conjunct2]
  show ?thesis
    by (rule conjI [OF a1 conjI [OF a2 conjI [OF a3 conjI [OF a4 conjI [OF a5
          conjI [OF a6 conjI [OF a7 conjI [OF a8 b]]]]]]]])
qed

text \<open>
  C6 as stated fails: with an empty cache and no test model, the token exchange is sent
  before the building of the probe URL fails.
\<close>

theorem ValidateKey_order_counterexample:
  "snd (snd (snd (ValidateKey (sample_world 3600) no_rules (vertex_channel [])
                    sample_key (lenient_group []))))
     = Some MissingVertexURLParts
   \<and> map Target (fst (snd (ValidateKey (sample_world 3600) no_rules (vertex_channel [])
                    sample_key (lenient_group []))))
     = [''https://oauth2.googleapis.com/token'']"
  by code_simp

theorem ValidateKey_outcomes_witness:
  "snd (snd (snd (ValidateKey (sample_world 3600) no_rules (vertex_channel ''gemini-pro'')
                    sample_key (lenient_group [])))) = None
   \<and> fst (snd (snd (ValidateKey (sample_world 3600) no_rules (vertex_channel ''gemini-pro'')
                    sample_key (lenient_group []))))
   \<and> map Target (fst (snd (ValidateKey (sample_world 3600) no_rules
                    (vertex_channel ''gemini-pro'') sample_key (lenient_group []))))
     = [''https://oauth2.googleapis.com/token'',
        ''https://us-central1-aiplatform.googleapis.com/v1/projects/proj1/locations/us-central1/publishers/google/models/gemini-pro:generateContent'']"
proof -
  let ?r = "ValidateKey (sample_world 3600) no_rules (vertex_channel ''gemini-pro'')
                    sample_key (lenient_group [])"
  have e: "snd (snd (snd ?r)) = None" by code_simp
  have t: "map Target (fst (snd ?r))
     = [''https://oauth2.googleapis.com/token'',
        ''https://us-central1-aiplatform.googleapis.com/v1/projects/proj1/locations/us-central1/publishers/google/models/gemini-pro:generateContent'']"
    by code_simp
  have c: "?r = (fst ?r, fst (snd ?r), fst (snd (snd ?r)), snd (snd (snd ?r)))"
    by simp
  from ValidateKey_outcomes [OF c] e have "fst (snd (snd ?r))" by blast
  with e t show ?thesis by blast
qed

subsection \<open>The token minter\<close>

text \<open>
  What the minter does when nothing fails: the expiry within the range of \<open>int64\<close>
  nanoseconds, the two key encodings, the assertion, the request, and the reading of
  the response.
\<close>

lemma seconds_in_range:
  fixes e :: int64
  assumes "0 < sint e" "sint e \<le> 9223372036"
  shows "sint (e * 1000000000) = sint e * 1000000000"
proof -
  have "sint (e * 1000000000) = signed_take_bit 63 (sint e * sint (1000000000 :: int64))"
    by (simp add: sint_word_ariths)
  also have "sint (1000000000 :: int64) = 1000000000" by simp
  also have "signed_take_bit 63 (sint e * 1000000000) = sint e * 1000000000"
    using assms by (intro signed_take_bit_int_eq_self) auto
  finally show ?thesis .
qed

lemma tokenFromBody_expiry:
  assumes "json_Unmarshal_token w bodyBytes = Inr tr" "tr_AccessToken tr \<noteq> []"
  shows "sint (tr_ExpiresIn tr) \<le> 0
           \<Longrightarrow> tokenFromBody w bodyBytes
               = Inr (tr_AccessToken tr, now_minted w + 3600 * 1000000000)"
    and "0 < sint (tr_ExpiresIn tr) \<Longrightarrow> sint (tr_ExpiresIn tr) \<le> 9223372036
           \<Longrightarrow> tokenFromBody w bodyBytes
               = Inr (tr_AccessToken tr, now_minted w + sint (tr_ExpiresIn tr) * 1000000000)"
proof -
  assume "sint (tr_ExpiresIn tr) \<le> 0"
  then have "tr_ExpiresIn tr \<le>s 0" by (simp add: word_sle_eq)
  with assms show "tokenFromBody w bodyBytes
               = Inr (tr_AccessToken tr, now_minted w + 3600 * 1000000000)"
    unfolding tokenFromBody_def Let_def by simp
next
  assume r: "0 < sint (tr_ExpiresIn tr)" "sint (tr_ExpiresIn tr) \<le> 9223372036"
  then have "\<not> tr_ExpiresIn tr \<le>s 0" by (simp add: word_sle_eq)
  with assms seconds_in_range [OF r] show "tokenFromBody w bodyBytes
               = Inr (tr_AccessToken tr, now_minted w + sint (tr_ExpiresIn tr) * 1000000000)"
    unfolding tokenFromBody_def Let_def by simp
qed


lemma parseRSAPrivateKeyFromPEM_accepts:
  "pem_Decode w pemStr = Some block
   \<Longrightarrow> x509_ParsePKCS8PrivateKey w block = Inr (RSAPrivateKey k)
   \<Longrightarrow> parseRSAPrivateKeyFromPEM w pemStr = Inr k"
  "pem_Decode w pemStr = Some block
   \<Longrightarrow> x509_ParsePKCS8PrivateKey w block = Inl e
   \<Longrightarrow> x509_ParsePKCS1PrivateKey w block = Inr k
   \<Longrightarrow> parseRSAPrivateKeyFromPEM w pemStr = Inr k"
  unfolding parseRSAPrivateKeyFromPEM_def by simp_all

lemma jwtAssertion_success:
  assumes "json_Marshal_header w \<lparr>Alg = ''RS256'', Typ = ''JWT'', Kid = PrivateKeyID sa\<rparr>
             = Inr headerJSON"
    and "json_Marshal_claims w
           \<lparr>Iss = ClientEmail sa, Scope = ''https://www.googleapis.com/auth/cloud-platform'',
            Aud = tokenURI, Iat = now_unix w, Exp = now_unix w + 3600\<rparr> = Inr claimsJSON"
    and "parseRSAPrivateKeyFromPEM w (PrivateKey sa) = Inr priv"
    and "rsa_SignPKCS1v15 w priv
           (sha256_Sum256 w (base64_RawURLEncoding w headerJSON @ ''.''
                               @ base64_RawURLEncoding w claimsJSON)) = Inr sig"
  shows "jwtAssertion w sa tokenURI =
           Inr (base64_RawURLEncoding w headerJSON @ ''.''
                @ base64_RawURLEncoding w claimsJSON @ ''.''
                @ base64_RawURLEncoding w sig)"
proof -
  from assms(2) have c: "json_Marshal_claims w
           \<lparr>Iss = ClientEmail sa, Scope = vertexOAuthScope,
            Aud = tokenURI, Iat = now_unix w, Exp = now_unix w + 3600\<rparr> = Inr claimsJSON"
    unfolding vertexOAuthScope_def .
  show ?thesis
    unfolding jwtAssertion_def rs256Sign_def Let_def
    by (simp only: assms(1) c assms(3) assms(4) sum.case append_assoc)
qed

lemma mint_exchanges:
  assumes "ClientEmail sa \<noteq> []" "PrivateKey sa \<noteq> []"
    and "tokenURI = (if TokenURI sa = [] then ''https://oauth2.googleapis.com/token''
                     else TokenURI sa)"
    and "jwtAssertion w sa tokenURI = Inr assertion"
    and "http_NewRequest w ''POST'' tokenURI = None"
  shows "mintAccessTokenFromServiceAccount w sa =
           exchangeToken w
             \<lparr>Method = ''POST'', Target = tokenURI,
              ReqHeader = [(''Content-Type'', ''application/x-www-form-urlencoded'')],
              ReqBody = url_Values_Encode w
                  [(''grant_type'', ''urn:ietf:params:oauth:grant-type:jwt-bearer''),
                   (''assertion'', assertion)]\<rparr>"
proof -
  from assms(3) have u: "(if TokenURI sa = [] then vertexDefaultTokenURI else TokenURI sa)
      = tokenURI"
    unfolding vertexDefaultTokenURI_def by simp
  from assms(1,2) have ne: "(ClientEmail sa = [] \<or> PrivateKey sa = []) = False" by simp
  show ?thesis
    unfolding mintAccessTokenFromServiceAccount_def Let_def u ne tokenRequest_def
    by (simp only: assms(4) assms(5) sum.case option.case if_False)
qed

lemma exchangeToken_rejected:
  "HTTPClient_Do w req = Inr resp \<Longrightarrow> ReadAll resp = Inr bodyBytes
   \<Longrightarrow> StatusCode resp < 200 \<or> 300 \<le> StatusCode resp
   \<Longrightarrow> exchangeToken w req
       = ([req], Inl (StatusError (StatusCode resp) (ParseUpstreamError w bodyBytes)))"
  unfolding exchangeToken_def by simp

lemma exchangeToken_accepted:
  "HTTPClient_Do w req = Inr resp \<Longrightarrow> ReadAll resp = Inr bodyBytes
   \<Longrightarrow> 200 \<le> StatusCode resp \<Longrightarrow> StatusCode resp < 300
   \<Longrightarrow> exchangeToken w req = ([req], tokenFromBody w bodyBytes)"
  unfolding exchangeToken_def by simp

text \<open>
  C2. The assertion, the request and the error of a rejected exchange are as stated
  (the lemmas above), and the expiry is the clock's reading plus \<open>expires_in\<close> seconds
  as long as \<open>expires_in\<close> is at most 9223372036. Beyond that the product with
  \<open>time.Second\<close> wraps around: for \<open>expires_in = 9223372037\<close> the minter returns an
  expiry some 292 years before the clock's reading.
\<close>

theorem mint_expiry_overflow:
  "snd (mintAccessTokenFromServiceAccount (sample_world 9223372037) minimal_account)
     = Inr (''tok'', now_minted (sample_world 9223372037) - 9223372036709551616)"
  by code_simp

subsection \<open>Examples\<close>

text \<open>
  The streaming classification at the bodies of the specification's examples: a body
  with \<open>stream\<close> true and neither header nor query parameter is streaming; a path that
  ends in \<open>:streamGenerateContent\<close> is streaming whatever the body says; a body with
  \<open>stream\<close> false, or one that does not decode, is not.
\<close>

theorem IsStreamRequest_witness:
  \<open>IsStreamRequest sample_unmarshal_stream native_request ''{"model":"x","stream":true}''
   \<and> IsStreamRequest sample_unmarshal_stream native_stream_request ''{"stream":false}''
   \<and> \<not> IsStreamRequest sample_unmarshal_stream native_request ''{"stream":false}''
   \<and> \<not> IsStreamRequest sample_unmarshal_stream native_request ''<html>''\<close>
proof -
  have a: \<open>sample_unmarshal_stream ''{"model":"x","stream":true}'' = Inr True\<close>
    by code_simp
  have b: "suffix '':streamGenerateContent'' (Path (URL native_stream_request))"
    unfolding HasSuffix_suffix [symmetric] by code_simp
  have c: \<open>\<not> (suffix '':streamGenerateContent'' (Path (URL native_request))
      \<or> sublist ''text/event-stream'' (Get (Header native_request) ''Accept'')
      \<or> Get (Query (URL native_request)) ''stream'' = ''true''
      \<or> sample_unmarshal_stream ''{"stream":false}'' = Inr True)\<close>
    unfolding HasSuffix_suffix [symmetric] Contains_sublist [symmetric] by code_simp
  have d: \<open>\<not> (suffix '':streamGenerateContent'' (Path (URL native_request))
      \<or> sublist ''text/event-stream'' (Get (Header native_request) ''Accept'')
      \<or> Get (Query (URL native_request)) ''stream'' = ''true''
      \<or> sample_unmarshal_stream ''<html>'' = Inr True)\<close>
    unfolding HasSuffix_suffix [symmetric] Contains_sublist [symmetric] by code_simp
  show ?thesis
    unfolding IsStreamRequest_iff using a b c d by blast
qed

text \<open>
  A redirect that hits keeps the method suffix; a path under an upstream prefix that
  already ends in the Vertex models prefix loses the Gemini prefix only; the model is read
  from the path; and \<open>ModifyRequest\<close> with an account that has no project leaves the
  path as it is and sets the bearer token.
\<close>

lemma redirect_example:
  "applyNativeFormatRedirect native_stream_request ''{}''
      (strict_group [(''gemini-pro'', ''gemini-2.5-pro'')])
   = (native_stream_request\<lparr>URL := (URL native_stream_request)
        \<lparr>Path := ''/v1beta/models/gemini-2.5-pro:streamGenerateContent''\<rparr>\<rparr>, Inr ''{}'')"
  by code_simp

lemma rewrite_prefixed_example:
  "Path (URL (rewriteGeminiNativePathToVertex prefixed_request proj1_account))
   = ''/v1/projects/p/locations/l/publishers/google/models/gemini-pro:generateContent''"
  by code_simp

lemma ExtractModel_example:
  "ExtractModel (\<lambda>b. Inl ''unexpected end of JSON input'') native_stream_request [] = ''gemini-pro''"
  by code_simp

lemma ModifyRequest_example:
  "(case ModifyRequest (sample_world 3600) (vertex_channel ''gemini-pro'') native_request sample_key
    of (cache, req, sent, err) \<Rightarrow>
      err = None
      \<and> Path (URL req) = ''/v1beta/models/gemini-pro:generateContent''
      \<and> Header req = [(''Authorization'', ''Bearer tok'')])"
  by code_simp

end
